theory Spec2Isabelle
  imports Complex_Main "HOL-Library.AList"
begin

section \<open>Data model of gitlab\_exporter.py\<close>

text \<open>
  The exporter is one Python module. Its functions are modelled one by one, under the
  names they have in the source; loops are recursive functions over the list they run
  through, and the helper definitions named after no source function stand for the line
  ranges their comments give. What the module reads from outside is a parameter: the
  values of \<open>config\<close>, the responses of the upstream API, the clock readings and the
  outcome of the mail transport. What it changes outside its locals is the \<open>world\<close>,
  passed in and returned. An exception is the left summand of the result. Output on the
  console is left out.

  Timestamps. A \<open>datetime\<close> of Python is aware or naive: an aware one is a number
  of microseconds on the UTC time line, a naive one a number of microseconds of a wall
  clock with no zone. A JSON timestamp field is modelled by what
  \<open>datetime.fromisoformat(x.get("created_at").replace("Z", "+00:00"))\<close> does with it:
  ISO 8601 text with a UTC offset or a final \<open>Z\<close>, as the upstream API writes it,
  gives an aware datetime (\<open>Stamp\<close>); ISO 8601 text with no offset gives a naive one
  (\<open>Offsetless\<close>); other text raises \<open>ValueError\<close> (\<open>Malformed\<close>); a missing field
  raises \<open>AttributeError\<close>, since \<open>.replace\<close> is called on \<open>None\<close>
  (\<open>Missing\<close>). Python floats are idealised as exact reals.
\<close>

type_synonym datetime = int

datatype py_error = AttributeError | ValueError | TypeError

datatype json_time = Stamp datetime | Offsetless datetime | Malformed | Missing

datatype py_datetime = Aware datetime | Naive datetime

fun fromisoformat :: "json_time \<Rightarrow> py_error + py_datetime" where
  "fromisoformat (Stamp t) = Inr (Aware t)"
| "fromisoformat (Offsetless t) = Inr (Naive t)"
| "fromisoformat Malformed = Inl ValueError"
| "fromisoformat Missing = Inl AttributeError"

fun micros :: "py_datetime \<Rightarrow> datetime" where
  "micros (Aware t) = t"
| "micros (Naive t) = t"

text \<open>The module \<open>config\<close> is imported by the exporter; its values are parameters.\<close>

record config =
  REPOSITORIES :: "string list"
  LABEL_REWORK :: string
  LABEL_IN_REVIEW :: string
  LABEL_REWORK_DONE :: string
  YOUR_EMAIL :: string
  SMTP_USER :: string
  SMTP_PASSWORD :: string

text \<open>
  A label event: \<open>ev_label\<close> is the name of the event's label, \<open>None\<close> when the event
  carries no label (\<open>if not label: continue\<close>); \<open>ev_action\<close> is \<open>"add"\<close> or
  \<open>"remove"\<close>.
\<close>

record label_event =
  ev_created_at :: json_time
  ev_label :: "string option"
  ev_action :: string

record assignee =
  username :: "string option"
  display_name :: string

text \<open>
  A merge request as the item list returns it. Fields read with a default
  (\<open>mr.get("source_branch", "unknown")\<close>) are options, \<open>None\<close> for a missing key.
\<close>

record merge_request =
  iid :: int
  mr_created_at :: json_time
  labels :: "string list"
  assignees :: "assignee list"
  source_branch :: "string option"
  target_branch :: "string option"
  title :: "string option"
  web_url :: "string option"

record project =
  proj_id :: int
  proj_path :: string
  proj_name :: string
  path_with_namespace :: "string option"

subsection \<open>The upstream API and the world the exporter acts on\<close>

text \<open>
  The three endpoints the exporter calls. \<open>None\<close> stands for any failure of the request
  (network error, HTTP error status, undecodable body): \<open>gitlab_api\<close> catches it and
  returns the empty list.
\<close>

datatype endpoint =
  ProjectSearch string
| MergeRequests int
| LabelEvents int int

record upstream =
  search_projects :: "string \<Rightarrow> project list option"
  merge_requests :: "int \<Rightarrow> merge_request list option"
  label_events :: "int \<Rightarrow> int \<Rightarrow> label_event list option"

definition gitlab_api :: "'a list option \<Rightarrow> 'a list" where
  "gitlab_api response = (case response of Some json \<Rightarrow> json | None \<Rightarrow> [])"

section \<open>calculate\_time\_in\_state\<close>

text \<open>The three local variables \<open>rework_added\<close>, \<open>in_review_added\<close>, \<open>rework_done_added\<close>.\<close>

record marks =
  rework_added :: "py_datetime option"
  in_review_added :: "py_datetime option"
  rework_done_added :: "py_datetime option"

definition no_marks :: marks where
  "no_marks = \<lparr>rework_added = None, in_review_added = None, rework_done_added = None\<rparr>"

text \<open>
  The part of the loop body after \<open>event_time\<close> has been parsed (lines 66 to 78). A
  \<open>datetime\<close> is always true in a condition, so \<open>not rework_added\<close> holds exactly when
  the variable is still \<open>None\<close>.
\<close>

definition mark_event :: "config \<Rightarrow> label_event \<Rightarrow> py_datetime \<Rightarrow> marks \<Rightarrow> marks" where
  "mark_event cfg event event_time s =
     (case ev_label event of
        None \<Rightarrow> s
      | Some label_name \<Rightarrow>
          if ev_action event = ''add'' then
            if label_name = LABEL_REWORK cfg \<and> rework_added s = None
              then s\<lparr>rework_added := Some event_time\<rparr>
            else if label_name = LABEL_IN_REVIEW cfg \<and> in_review_added s = None
              then s\<lparr>in_review_added := Some event_time\<rparr>
            else if label_name = LABEL_REWORK_DONE cfg \<and> rework_done_added s = None
              then s\<lparr>rework_done_added := Some event_time\<rparr>
            else s
          else s)"

text \<open>The loop over the events (lines 64 to 78); the timestamp of every event is parsed first.\<close>

fun scan_events :: "config \<Rightarrow> label_event list \<Rightarrow> marks \<Rightarrow> py_error + marks" where
  "scan_events cfg [] s = Inr s"
| "scan_events cfg (event # events) s =
     (case fromisoformat (ev_created_at event) of
        Inl e \<Rightarrow> Inl e
      | Inr event_time \<Rightarrow> scan_events cfg events (mark_event cfg event event_time s))"

text \<open>
  \<open>(b - a).total_seconds() / 3600\<close>: the difference of two datetimes is a number of
  microseconds. Python subtracts two aware or two naive datetimes and raises
  \<open>TypeError\<close> for an aware and a naive one.
\<close>

definition hours :: "datetime \<Rightarrow> datetime \<Rightarrow> real" where
  "hours b a = real_of_int (b - a) / 1000000 / 3600"

fun hours_between :: "py_datetime \<Rightarrow> py_datetime \<Rightarrow> py_error + real" where
  "hours_between (Aware b) (Aware a) = Inr (hours b a)"
| "hours_between (Naive b) (Naive a) = Inr (hours b a)"
| "hours_between (Aware b) (Naive a) = Inl TypeError"
| "hours_between (Naive b) (Aware a) = Inl TypeError"

type_synonym timings = "real option \<times> real option \<times> real option"

text \<open>
  Lines 80 to 98, in their order. \<open>now\<close> is what
  \<open>datetime.now(in_review_added.tzinfo)\<close> reads, on the time line of
  \<open>in_review_added\<close> (the call gives an aware datetime for an aware argument and a
  naive one for a naive argument, so this subtraction does not raise).
\<close>

definition durations :: "py_datetime \<Rightarrow> datetime \<Rightarrow> marks \<Rightarrow> py_error + timings" where
  "durations created_at now s =
     (case (case (rework_added s, rework_done_added s) of
              (Some r, Some d) \<Rightarrow> map_sum id Some (hours_between d r)
            | _ \<Rightarrow> Inr None) of
        Inl e \<Rightarrow> Inl e
      | Inr time_in_rework \<Rightarrow>
          (case (case in_review_added s of
                   None \<Rightarrow> Inr None
                 | Some v \<Rightarrow>
                     (case rework_done_added s of
                        Some d \<Rightarrow> map_sum id Some (hours_between d v)
                      | None \<Rightarrow> Inr (Some (hours now (micros v))))) of
             Inl e \<Rightarrow> Inl e
           | Inr time_in_review \<Rightarrow>
               (case (case rework_done_added s of
                        Some d \<Rightarrow> map_sum id Some (hours_between d created_at)
                      | None \<Rightarrow> Inr None) of
                  Inl e \<Rightarrow> Inl e
                | Inr time_to_complete \<Rightarrow>
                    Inr (time_in_rework, time_in_review, time_to_complete))))"

text \<open>
  The five counters of a project, the record of an item (\<open>branch_data\<close>), the result
  of \<open>collect_metrics\<close> and an entry of the list \<open>rework_mrs\<close>.
\<close>

record stats =
  total_mrs :: nat
  rework_mrs :: nat
  rework_assigned_to_me :: nat
  in_review_mrs :: nat
  rework_done_mrs :: nat

record branch_data =
  bd_project :: string
  bd_branch :: string
  bd_target_branch :: string
  bd_mr_title :: string
  time_in_rework :: real
  time_in_review :: real
  time_to_complete :: real
  has_rework :: bool
  has_in_review :: bool
  has_rework_done :: bool

record snapshot =
  project_metrics :: "(string \<times> stats) list"
  branch_metrics :: "branch_data list"

record alert_item =
  al_title :: "string option"
  al_url :: "string option"
  al_created :: json_time
  al_project :: string

text \<open>
  The world: the process-wide \<open>metrics_cache\<close> (the key \<open>last_rework_count\<close> is
  absent until the first cycle has ended), the requests sent to the upstream API so far,
  the calls of \<open>send_email_alert\<close> so far, each with the items its body lists, and
  the messages the mail server accepted.
\<close>

record cache =
  last_update :: real
  data :: snapshot
  last_rework_count :: "nat option"

record world =
  metrics_cache :: cache
  requests :: "endpoint list"
  alerts :: "alert_item list list"
  delivered :: "alert_item list list"

definition get_mr_label_events ::
  "upstream \<Rightarrow> int \<Rightarrow> int \<Rightarrow> world \<Rightarrow> label_event list \<times> world" where
  "get_mr_label_events up project_id mr_iid w =
     (gitlab_api (label_events up project_id mr_iid),
      w\<lparr>requests := requests w @ [LabelEvents project_id mr_iid]\<rparr>)"

text \<open>
  \<open>calculate_time_in_state(mr, project_id)\<close>: it fetches the label events (line 54),
  and \<open>time_in_state\<close> is what it does with them (lines 55 to 98). The clock \<open>now\<close>
  is the reading \<open>datetime.now\<close> gives while this item is processed.
\<close>

definition time_in_state ::
  "config \<Rightarrow> merge_request \<Rightarrow> label_event list \<Rightarrow> datetime \<Rightarrow> py_error + timings" where
  "time_in_state cfg mr events now =
     (if events = [] then Inr (None, None, None)
      else
        (case fromisoformat (mr_created_at mr) of
           Inl e \<Rightarrow> Inl e
         | Inr created_at \<Rightarrow>
             (case scan_events cfg events no_marks of
                Inl e \<Rightarrow> Inl e
              | Inr s \<Rightarrow> durations created_at now s)))"

definition calculate_time_in_state ::
  "config \<Rightarrow> upstream \<Rightarrow> datetime \<Rightarrow> merge_request \<Rightarrow> int \<Rightarrow> world
     \<Rightarrow> (py_error + timings) \<times> world" where
  "calculate_time_in_state cfg up now mr project_id w =
     (case get_mr_label_events up project_id (iid mr) w of
        (events, w') \<Rightarrow> (time_in_state cfg mr events now, w'))"

section \<open>collect\_metrics\<close>

text \<open>The local variables \<open>metrics\<close>, \<open>branch_metrics\<close> and \<open>rework_mrs\<close> of \<open>collect_metrics\<close>.\<close>

record gathered =
  l_metrics :: "(string \<times> stats) list"
  l_branch_metrics :: "branch_data list"
  l_rework_mrs :: "alert_item list"

definition no_gathered :: gathered where
  "no_gathered = \<lparr>l_metrics = [], l_branch_metrics = [], l_rework_mrs = []\<rparr>"

definition zero_stats :: stats where
  "zero_stats = \<lparr>total_mrs = 0, rework_mrs = 0, rework_assigned_to_me = 0,
                  in_review_mrs = 0, rework_done_mrs = 0\<rparr>"

text \<open>
  \<open>metrics[project_name][counter] += 1\<close> on the \<open>defaultdict\<close>: a missing entry reads as
  zero counters; an entry keeps its place in the insertion order.
\<close>

definition bump ::
  "string \<Rightarrow> (stats \<Rightarrow> stats) \<Rightarrow> (string \<times> stats) list \<Rightarrow> (string \<times> stats) list" where
  "bump project_name f metrics =
     AList.update project_name
       (f (case map_of metrics project_name of Some s \<Rightarrow> s | None \<Rightarrow> zero_stats)) metrics"

text \<open>\<open>x or 0\<close> on an optional float: \<open>None\<close> and \<open>0.0\<close> are both false.\<close>

definition or0 :: "real option \<Rightarrow> real" where
  "or0 x = (case x of None \<Rightarrow> 0 | Some v \<Rightarrow> if v = 0 then 0 else v)"

definition get_default :: "'a \<Rightarrow> 'a option \<Rightarrow> 'a" where
  "get_default d x = (case x of None \<Rightarrow> d | Some v \<Rightarrow> v)"

text \<open>\<open>config.YOUR_EMAIL.split("@")[0]\<close>: the text before the first \<open>@\<close>.\<close>

definition email_user :: "config \<Rightarrow> string" where
  "email_user cfg = takeWhile (\<lambda>c. c \<noteq> CHR ''@'') (YOUR_EMAIL cfg)"

definition assigned_to_me :: "config \<Rightarrow> merge_request \<Rightarrow> bool" where
  "assigned_to_me cfg mr \<longleftrightarrow> Some (email_user cfg) \<in> set (map username (assignees mr))"

text \<open>The dictionary \<open>branch_data\<close> of an item (lines 163 to 174).\<close>

definition branch_data_of :: "config \<Rightarrow> string \<Rightarrow> merge_request \<Rightarrow> timings \<Rightarrow> branch_data" where
  "branch_data_of cfg project_name mr timing =
     (case timing of (t_rework, t_review, t_complete) \<Rightarrow>
        \<lparr>bd_project = project_name,
         bd_branch = get_default ''unknown'' (source_branch mr),
         bd_target_branch = get_default ''main'' (target_branch mr),
         bd_mr_title = get_default [] (title mr),
         time_in_rework = or0 t_rework,
         time_in_review = or0 t_review,
         time_to_complete = or0 t_complete,
         has_rework = (LABEL_REWORK cfg \<in> set (labels mr)),
         has_in_review = (LABEL_IN_REVIEW cfg \<in> set (labels mr)),
         has_rework_done = (LABEL_REWORK_DONE cfg \<in> set (labels mr))\<rparr>)"

text \<open>The entry of \<open>rework_mrs\<close> for an item (lines 184 to 189).\<close>

definition alert_of :: "string \<Rightarrow> merge_request \<Rightarrow> alert_item" where
  "alert_of project_name mr =
     \<lparr>al_title = title mr, al_url = web_url mr, al_created = mr_created_at mr,
      al_project = project_name\<rparr>"

text \<open>The loop body from the record of the item on (lines 162 to 195).\<close>

definition record_mr :: "config \<Rightarrow> string \<Rightarrow> merge_request \<Rightarrow> timings \<Rightarrow> gathered \<Rightarrow> gathered" where
  "record_mr cfg project_name mr timing g =
     (let g1 = g\<lparr>l_branch_metrics :=
                  l_branch_metrics g @ [branch_data_of cfg project_name mr timing]\<rparr>;
          g2 = (if LABEL_REWORK cfg \<in> set (labels mr) then
                  let g' = g1\<lparr>l_metrics :=
                             bump project_name (\<lambda>s. s\<lparr>rework_mrs := rework_mrs s + 1\<rparr>)
                               (l_metrics g1)\<rparr>
                  in if assigned_to_me cfg mr then
                       g'\<lparr>l_metrics :=
                             bump project_name
                               (\<lambda>s. s\<lparr>rework_assigned_to_me := rework_assigned_to_me s + 1\<rparr>)
                               (l_metrics g'),
                          l_rework_mrs := l_rework_mrs g' @ [alert_of project_name mr]\<rparr>
                     else g'
                else g1);
          g3 = (if LABEL_IN_REVIEW cfg \<in> set (labels mr) then
                  g2\<lparr>l_metrics :=
                        bump project_name (\<lambda>s. s\<lparr>in_review_mrs := in_review_mrs s + 1\<rparr>)
                          (l_metrics g2)\<rparr>
                else g2)
      in if LABEL_REWORK_DONE cfg \<in> set (labels mr) then
           g3\<lparr>l_metrics :=
                 bump project_name (\<lambda>s. s\<lparr>rework_done_mrs := rework_done_mrs s + 1\<rparr>)
                   (l_metrics g3)\<rparr>
         else g3)"

text \<open>
  One pass of the loop over the items (lines 148 to 195). \<open>clock project_id mr_iid\<close> is
  the reading of \<open>datetime.now\<close> while that item is processed. An exception leaves the
  loop; the locals are lost, the requests already sent stay sent.
\<close>

definition process_mr ::
  "config \<Rightarrow> upstream \<Rightarrow> (int \<Rightarrow> int \<Rightarrow> datetime) \<Rightarrow> int \<Rightarrow> string \<Rightarrow> merge_request
     \<Rightarrow> gathered \<Rightarrow> world \<Rightarrow> (py_error + gathered) \<times> world" where
  "process_mr cfg up clock project_id project_name mr g w =
     (let g0 = g\<lparr>l_metrics :=
                  bump project_name (\<lambda>s. s\<lparr>total_mrs := total_mrs s + 1\<rparr>) (l_metrics g)\<rparr>
      in case calculate_time_in_state cfg up (clock project_id (iid mr)) mr project_id w of
           (Inl e, w') \<Rightarrow> (Inl e, w')
         | (Inr timing, w') \<Rightarrow> (Inr (record_mr cfg project_name mr timing g0), w'))"

fun mr_loop ::
  "config \<Rightarrow> upstream \<Rightarrow> (int \<Rightarrow> int \<Rightarrow> datetime) \<Rightarrow> int \<Rightarrow> string \<Rightarrow> merge_request list
     \<Rightarrow> gathered \<Rightarrow> world \<Rightarrow> (py_error + gathered) \<times> world" where
  "mr_loop cfg up clock project_id project_name [] g w = (Inr g, w)"
| "mr_loop cfg up clock project_id project_name (mr # mrs) g w =
     (case process_mr cfg up clock project_id project_name mr g w of
        (Inl e, w') \<Rightarrow> (Inl e, w')
      | (Inr g', w') \<Rightarrow> mr_loop cfg up clock project_id project_name mrs g' w')"

definition get_merge_requests :: "upstream \<Rightarrow> int \<Rightarrow> world \<Rightarrow> merge_request list \<times> world" where
  "get_merge_requests up project_id w =
     (gitlab_api (merge_requests up project_id),
      w\<lparr>requests := requests w @ [MergeRequests project_id]\<rparr>)"

text \<open>The body of the loop over the projects (lines 136 to 195).\<close>

definition process_project ::
  "config \<Rightarrow> upstream \<Rightarrow> (int \<Rightarrow> int \<Rightarrow> datetime) \<Rightarrow> project
     \<Rightarrow> gathered \<Rightarrow> world \<Rightarrow> (py_error + gathered) \<times> world" where
  "process_project cfg up clock proj g w =
     (let project_id = proj_id proj;
          project_name = get_default ''unknown'' (path_with_namespace proj);
          g0 = g\<lparr>l_metrics := AList.update project_name zero_stats (l_metrics g)\<rparr>
      in case get_merge_requests up project_id w of
           (mrs, w') \<Rightarrow> mr_loop cfg up clock project_id project_name mrs g0 w')"

fun project_loop ::
  "config \<Rightarrow> upstream \<Rightarrow> (int \<Rightarrow> int \<Rightarrow> datetime) \<Rightarrow> project list
     \<Rightarrow> gathered \<Rightarrow> world \<Rightarrow> (py_error + gathered) \<times> world" where
  "project_loop cfg up clock [] g w = (Inr g, w)"
| "project_loop cfg up clock (proj # projects) g w =
     (case process_project cfg up clock proj g w of
        (Inl e, w') \<Rightarrow> (Inl e, w')
      | (Inr g', w') \<Rightarrow> project_loop cfg up clock projects g' w')"

text \<open>\<open>get_all_projects\<close>: the first search result whose path or name is the repository name.\<close>

fun find_projects :: "upstream \<Rightarrow> string list \<Rightarrow> project list \<Rightarrow> world \<Rightarrow> project list \<times> world" where
  "find_projects up [] projects w = (projects, w)"
| "find_projects up (repo_name # names) projects w =
     (let result = gitlab_api (search_projects up repo_name);
          w' = w\<lparr>requests := requests w @ [ProjectSearch repo_name]\<rparr>
      in case find (\<lambda>proj. proj_path proj = repo_name \<or> proj_name proj = repo_name) result of
           Some proj \<Rightarrow> find_projects up names (projects @ [proj]) w'
         | None \<Rightarrow> find_projects up names projects w')"

definition get_all_projects :: "config \<Rightarrow> upstream \<Rightarrow> world \<Rightarrow> project list \<times> world" where
  "get_all_projects cfg up w = find_projects up (REPOSITORIES cfg) [] w"

text \<open>
  \<open>send_email_alert\<close>. The call is logged in \<open>alerts\<close> with the items its body lists; the
  message is delivered when the mail settings are all set and the transport, \<open>smtp_ok\<close>,
  does not raise. Every exception of the transport is swallowed.
\<close>

definition send_email_alert :: "config \<Rightarrow> bool \<Rightarrow> alert_item list \<Rightarrow> world \<Rightarrow> world" where
  "send_email_alert cfg smtp_ok items w =
     (let w' = w\<lparr>alerts := alerts w @ [items]\<rparr>
      in if SMTP_USER cfg = [] \<or> SMTP_PASSWORD cfg = [] \<or> YOUR_EMAIL cfg = [] then w'
         else if smtp_ok then w'\<lparr>delivered := delivered w' @ [items]\<rparr>
         else w')"

text \<open>Lines 197 to 213: the alert, then the three stores into the cache.\<close>

definition finish_cycle :: "config \<Rightarrow> bool \<Rightarrow> real \<Rightarrow> gathered \<Rightarrow> world \<Rightarrow> snapshot \<times> world" where
  "finish_cycle cfg smtp_ok now g w =
     (let w1 = (if l_rework_mrs g \<noteq> [] \<and>
                   get_default 0 (last_rework_count (metrics_cache w)) < length (l_rework_mrs g)
                then send_email_alert cfg smtp_ok (l_rework_mrs g) w
                else w);
          result = \<lparr>project_metrics = l_metrics g, branch_metrics = l_branch_metrics g\<rparr>
      in (result,
          w1\<lparr>metrics_cache :=
               \<lparr>last_update = now, data = result,
                last_rework_count = Some (length (l_rework_mrs g))\<rparr>\<rparr>))"

text \<open>\<open>collect_metrics\<close>; \<open>now\<close> is the reading of \<open>time.time()\<close>.\<close>

definition collect_metrics ::
  "config \<Rightarrow> upstream \<Rightarrow> (int \<Rightarrow> int \<Rightarrow> datetime) \<Rightarrow> bool \<Rightarrow> real \<Rightarrow> world
     \<Rightarrow> (py_error + snapshot) \<times> world" where
  "collect_metrics cfg up clock smtp_ok now w =
     (if now - last_update (metrics_cache w) < 10 then (Inr (data (metrics_cache w)), w)
      else
        (case get_all_projects cfg up w of
           (projects, w1) \<Rightarrow>
             (case project_loop cfg up clock projects no_gathered w1 of
                (Inl e, w2) \<Rightarrow> (Inl e, w2)
              | (Inr g, w2) \<Rightarrow>
                  (case finish_cycle cfg smtp_ok now g w2 of
                     (result, w3) \<Rightarrow> (Inr result, w3)))))"

text \<open>The module starts with an empty cache: \<open>{"last_update": 0, "data": {}}\<close>.\<close>

definition initial_world :: world where
  "initial_world =
     \<lparr>metrics_cache = \<lparr>last_update = 0,
                        data = \<lparr>project_metrics = [], branch_metrics = []\<rparr>,
                        last_rework_count = None\<rparr>,
      requests = [], alerts = [], delivered = []\<rparr>"

section \<open>MetricsHandler.do\_GET\<close>

text \<open>
  Text is a list of characters, one per code point. \<open>str(n)\<close> of a count and
  \<open>f"{x:.2f}"\<close> of a duration: the nearest hundredth, a tie going to the even
  neighbour, as Python formats a float that is exactly such a tie.
\<close>

definition digit :: "nat \<Rightarrow> char" where
  "digit d = ''0123456789'' ! d"

fun show_nat :: "nat \<Rightarrow> string" where
  "show_nat n = (if n < 10 then [digit n] else show_nat (n div 10) @ [digit (n mod 10)])"

definition round_half_even :: "real \<Rightarrow> int" where
  "round_half_even y =
     (let f = \<lfloor>y\<rfloor>; r = y - real_of_int f
      in if r < 1 / 2 then f else if 1 / 2 < r then f + 1 else if even f then f else f + 1)"

definition format_2f :: "real \<Rightarrow> string" where
  "format_2f x =
     (let n = nat (round_half_even (\<bar>x\<bar> * 100))
      in (if x < 0 then ''-'' else []) @ show_nat (n div 100) @ ''.'' @
         [digit (n mod 100 div 10), digit (n mod 10)])"

text \<open>\<open>s.replace('"', '\\"')\<close>: a backslash before every double quote.\<close>

definition escape_quotes :: "string \<Rightarrow> string" where
  "escape_quotes s = concat (map (\<lambda>c. if c = CHR 0x22 then [CHR 0x5C, CHR 0x22] else [c]) s)"

definition quoted :: "string \<Rightarrow> string" where
  "quoted s = [CHR 0x22] @ s @ [CHR 0x22]"

definition project_label :: "string \<Rightarrow> string" where
  "project_label project = ''{project='' @ quoted project @ ''}''"

definition branch_labels :: "string \<Rightarrow> string \<Rightarrow> string \<Rightarrow> string \<Rightarrow> string" where
  "branch_labels project branch target ttl =
     ''{project='' @ quoted project @ '',branch='' @ quoted branch @
     '',target='' @ quoted target @ '',title='' @ quoted ttl @ ''}''"

definition header_lines :: "string list" where
  "header_lines =
     [''# HELP gitlab_merge_requests_total Total merge requests by project'',
      ''# TYPE gitlab_merge_requests_total gauge'',
      ''# HELP gitlab_rework_mrs MRs with rework label'',
      ''# TYPE gitlab_rework_mrs gauge'',
      ''# HELP gitlab_rework_assigned_to_me MRs with rework assigned to me'',
      ''# TYPE gitlab_rework_assigned_to_me gauge'',
      ''# HELP gitlab_in_review_mrs MRs in review'',
      ''# TYPE gitlab_in_review_mrs gauge'',
      ''# HELP gitlab_rework_done_mrs MRs with rework done'',
      ''# TYPE gitlab_rework_done_mrs gauge'',
      ''# HELP gitlab_mr_info MR information with branch labels'',
      ''# TYPE gitlab_mr_info gauge'',
      ''# HELP gitlab_mr_time_in_rework_hours Time spent in rework per MR (hours)'',
      ''# TYPE gitlab_mr_time_in_rework_hours gauge'',
      ''# HELP gitlab_mr_time_in_review_hours Time spent in review per MR (hours)'',
      ''# TYPE gitlab_mr_time_in_review_hours gauge'',
      ''# HELP gitlab_mr_time_to_complete_hours Time to complete MR (hours)'',
      ''# TYPE gitlab_mr_time_to_complete_hours gauge'']"

text \<open>The five lines of one project (lines 247 to 252).\<close>

definition project_lines :: "string \<times> stats \<Rightarrow> string list" where
  "project_lines entry =
     (case entry of (project, st) \<Rightarrow>
        [''gitlab_merge_requests_total'' @ project_label project @ '' '' @ show_nat (total_mrs st),
         ''gitlab_rework_mrs'' @ project_label project @ '' '' @ show_nat (rework_mrs st),
         ''gitlab_rework_assigned_to_me'' @ project_label project @ '' '' @
           show_nat (rework_assigned_to_me st),
         ''gitlab_in_review_mrs'' @ project_label project @ '' '' @ show_nat (in_review_mrs st),
         ''gitlab_rework_done_mrs'' @ project_label project @ '' '' @
           show_nat (rework_done_mrs st)])"

text \<open>The lines of one item (lines 255 to 272).\<close>

definition branch_lines :: "branch_data \<Rightarrow> string list" where
  "branch_lines bd =
     (let project = bd_project bd;
          branch = escape_quotes (bd_branch bd);
          target = escape_quotes (bd_target_branch bd);
          ttl = take 50 (escape_quotes (bd_mr_title bd));
          lbl = branch_labels project branch target ttl
      in [''gitlab_mr_info'' @ lbl @ '' 1''] @
         (if time_in_rework bd > 0
            then [''gitlab_mr_time_in_rework_hours'' @ lbl @ '' '' @ format_2f (time_in_rework bd)]
            else []) @
         (if time_in_review bd > 0
            then [''gitlab_mr_time_in_review_hours'' @ lbl @ '' '' @ format_2f (time_in_review bd)]
            else []) @
         (if time_to_complete bd > 0
            then [''gitlab_mr_time_to_complete_hours'' @ lbl @ '' '' @
                    format_2f (time_to_complete bd)]
            else []))"

definition metric_lines :: "snapshot \<Rightarrow> string list" where
  "metric_lines snap =
     header_lines @ concat (map project_lines (project_metrics snap)) @
     concat (map branch_lines (branch_metrics snap))"

text \<open>\<open>'\n'.join(lines)\<close>\<close>

fun join_lines :: "string list \<Rightarrow> string" where
  "join_lines [] = []"
| "join_lines [l] = l"
| "join_lines (l # ls) = l @ [CHR 0x0A] @ join_lines ls"

text \<open>
  \<open>do_GET\<close>: the status and the body of the response. Any exception under
  \<open>/metrics\<close> gives status 500 with an empty body.
\<close>

definition do_GET ::
  "config \<Rightarrow> upstream \<Rightarrow> (int \<Rightarrow> int \<Rightarrow> datetime) \<Rightarrow> bool \<Rightarrow> real \<Rightarrow> string \<Rightarrow> world
     \<Rightarrow> (nat \<times> string) \<times> world" where
  "do_GET cfg up clock smtp_ok now path w =
     (if path = ''/metrics'' then
        (case collect_metrics cfg up clock smtp_ok now w of
           (Inl e, w') \<Rightarrow> ((500, []), w')
         | (Inr snap, w') \<Rightarrow> ((200, join_lines (metric_lines snap)), w'))
      else ((404, []), w))"

declare show_nat.simps [simp del]

section \<open>Notions used to state the properties\<close>

fun is_stamp :: "json_time \<Rightarrow> bool" where
  "is_stamp (Stamp t) = True"
| "is_stamp (Offsetless t) = False"
| "is_stamp Malformed = False"
| "is_stamp Missing = False"

text \<open>Every recorded time is an aware datetime.\<close>

fun is_aware :: "py_datetime \<Rightarrow> bool" where
  "is_aware (Aware t) = True"
| "is_aware (Naive t) = False"

definition aware_marks :: "marks \<Rightarrow> bool" where
  "aware_marks s \<longleftrightarrow>
     (case rework_added s of None \<Rightarrow> True | Some t \<Rightarrow> is_aware t) \<and>
     (case in_review_added s of None \<Rightarrow> True | Some t \<Rightarrow> is_aware t) \<and>
     (case rework_done_added s of None \<Rightarrow> True | Some t \<Rightarrow> is_aware t)"

text \<open>
  The durations, from the creation time, the clock and the three recorded times, where all
  of them are aware.
\<close>

definition aware_durations ::
  "datetime \<Rightarrow> datetime \<Rightarrow> datetime option \<Rightarrow> datetime option \<Rightarrow> datetime option \<Rightarrow> timings" where
  "aware_durations created now r v d =
     ((case (r, d) of (Some r', Some d') \<Rightarrow> Some (hours d' r') | _ \<Rightarrow> None),
      (case v of
         None \<Rightarrow> None
       | Some v' \<Rightarrow> (case d of Some d' \<Rightarrow> Some (hours d' v') | None \<Rightarrow> Some (hours now v'))),
      (case d of Some d' \<Rightarrow> Some (hours d' created) | None \<Rightarrow> None))"

text \<open>An event that adds the label \<open>l\<close>, and the time of the first such event of a log.\<close>

definition is_add :: "string \<Rightarrow> label_event \<Rightarrow> bool" where
  "is_add l e \<longleftrightarrow> ev_action e = ''add'' \<and> ev_label e = Some l"

definition first_add_time :: "string \<Rightarrow> label_event list \<Rightarrow> datetime option" where
  "first_add_time l events =
     (case find (is_add l) events of
        None \<Rightarrow> None
      | Some e \<Rightarrow> (case ev_created_at e of Stamp t \<Rightarrow> Some t | _ \<Rightarrow> None))"

text \<open>The three watched labels are three different names.\<close>

definition labels_distinct :: "config \<Rightarrow> bool" where
  "labels_distinct cfg \<longleftrightarrow>
     distinct [LABEL_REWORK cfg, LABEL_IN_REVIEW cfg, LABEL_REWORK_DONE cfg]"

text \<open>
  Every timestamp that \<open>calculate_time_in_state\<close> parses for this item is ISO 8601
  text with a UTC offset, so that it parses, and to an aware datetime.
\<close>

definition timestamps_parse :: "merge_request \<Rightarrow> label_event list \<Rightarrow> bool" where
  "timestamps_parse mr events \<longleftrightarrow>
     is_stamp (mr_created_at mr) \<and> list_all (\<lambda>e. is_stamp (ev_created_at e)) events"

definition or_else :: "'a option \<Rightarrow> 'a option \<Rightarrow> 'a option" where
  "or_else a b = (case a of Some x \<Rightarrow> Some x | None \<Rightarrow> b)"

text \<open>\<open>a\<close> is not later than \<open>b\<close>, where both are recorded.\<close>

definition not_after :: "datetime option \<Rightarrow> datetime option \<Rightarrow> bool" where
  "not_after a b = (case (a, b) of (Some x, Some y) \<Rightarrow> x \<le> y | _ \<Rightarrow> True)"

definition absent_or_nonneg :: "real option \<Rightarrow> bool" where
  "absent_or_nonneg d = (case d of None \<Rightarrow> True | Some x \<Rightarrow> 0 \<le> x)"

text \<open>The sample lines of one metric among the lines of an item.\<close>

fun starts_with :: "string \<Rightarrow> string \<Rightarrow> bool" where
  "starts_with [] s = True"
| "starts_with (c # cs) [] = False"
| "starts_with (c # cs) (d # ds) = (c = d \<and> starts_with cs ds)"

definition sample_lines :: "string \<Rightarrow> branch_data \<Rightarrow> string list" where
  "sample_lines metric bd = filter (starts_with (metric @ ''{'')) (branch_lines bd)"

text \<open>The label part of the lines of an item, as \<open>do_GET\<close> builds it.\<close>

definition item_labels :: "branch_data \<Rightarrow> string" where
  "item_labels bd =
     branch_labels (bd_project bd) (escape_quotes (bd_branch bd))
       (escape_quotes (bd_target_branch bd)) (take 50 (escape_quotes (bd_mr_title bd)))"

definition absent_or_zero :: "real option \<Rightarrow> bool" where
  "absent_or_zero d = (case d of None \<Rightarrow> True | Some x \<Rightarrow> x = 0)"

subsection \<open>What a collection cycle gathers, read off the upstream\<close>

text \<open>
  The projects the configured names resolve to, the open items of a project and the label
  events of an item, each with a failed request taken as the empty list.
\<close>

definition project_name_of :: "project \<Rightarrow> string" where
  "project_name_of proj = get_default ''unknown'' (path_with_namespace proj)"

definition resolved :: "config \<Rightarrow> upstream \<Rightarrow> project list" where
  "resolved cfg up =
     List.map_filter
       (\<lambda>repo_name. find (\<lambda>proj. proj_path proj = repo_name \<or> proj_name proj = repo_name)
                      (gitlab_api (search_projects up repo_name)))
       (REPOSITORIES cfg)"

definition items :: "upstream \<Rightarrow> project \<Rightarrow> merge_request list" where
  "items up proj = gitlab_api (merge_requests up (proj_id proj))"

definition item_events :: "upstream \<Rightarrow> project \<Rightarrow> merge_request \<Rightarrow> label_event list" where
  "item_events up proj mr = gitlab_api (label_events up (proj_id proj) (iid mr))"

text \<open>
  Every timestamp the cycle parses is ISO 8601 text with a UTC offset (an item with no
  label events has none of its timestamps parsed).
\<close>

definition item_parses :: "upstream \<Rightarrow> project \<Rightarrow> merge_request \<Rightarrow> bool" where
  "item_parses up proj mr \<longleftrightarrow>
     item_events up proj mr = [] \<or> timestamps_parse mr (item_events up proj mr)"

definition data_parses :: "config \<Rightarrow> upstream \<Rightarrow> bool" where
  "data_parses cfg up \<longleftrightarrow>
     list_all (\<lambda>proj. list_all (item_parses up proj) (items up proj)) (resolved cfg up)"

text \<open>
  The durations and the record of one item, from the item and its own label events (the
  durations are taken as absent where \<open>time_in_state\<close> raises, which \<open>data_parses\<close>
  excludes).
\<close>

definition item_timing ::
  "config \<Rightarrow> upstream \<Rightarrow> (int \<Rightarrow> int \<Rightarrow> datetime) \<Rightarrow> project \<Rightarrow> merge_request \<Rightarrow> timings" where
  "item_timing cfg up clock proj mr =
     (case time_in_state cfg mr (item_events up proj mr) (clock (proj_id proj) (iid mr)) of
        Inr t \<Rightarrow> t
      | Inl e \<Rightarrow> (None, None, None))"

definition item_record ::
  "config \<Rightarrow> upstream \<Rightarrow> (int \<Rightarrow> int \<Rightarrow> datetime) \<Rightarrow> project \<Rightarrow> merge_request
     \<Rightarrow> branch_data" where
  "item_record cfg up clock proj mr =
     branch_data_of cfg (project_name_of proj) mr (item_timing cfg up clock proj mr)"

text \<open>An item with the rework label that is assigned to the configured identity.\<close>

definition mine :: "config \<Rightarrow> merge_request \<Rightarrow> bool" where
  "mine cfg mr \<longleftrightarrow> LABEL_REWORK cfg \<in> set (labels mr) \<and> assigned_to_me cfg mr"

text \<open>The five counters of a project, counted over its own items.\<close>

definition stats_of :: "config \<Rightarrow> merge_request list \<Rightarrow> stats" where
  "stats_of cfg mrs =
     \<lparr>total_mrs = length mrs,
      rework_mrs = length (filter (\<lambda>mr. LABEL_REWORK cfg \<in> set (labels mr)) mrs),
      rework_assigned_to_me = length (filter (mine cfg) mrs),
      in_review_mrs = length (filter (\<lambda>mr. LABEL_IN_REVIEW cfg \<in> set (labels mr)) mrs),
      rework_done_mrs = length (filter (\<lambda>mr. LABEL_REWORK_DONE cfg \<in> set (labels mr)) mrs)\<rparr>"

definition counters_of :: "config \<Rightarrow> upstream \<Rightarrow> (string \<times> stats) list" where
  "counters_of cfg up =
     foldl (\<lambda>m proj. AList.update (project_name_of proj) (stats_of cfg (items up proj)) m) []
       (resolved cfg up)"

definition snapshot_of :: "config \<Rightarrow> upstream \<Rightarrow> (int \<Rightarrow> int \<Rightarrow> datetime) \<Rightarrow> snapshot" where
  "snapshot_of cfg up clock =
     \<lparr>project_metrics = counters_of cfg up,
      branch_metrics =
        concat (map (\<lambda>proj. map (item_record cfg up clock proj) (items up proj))
                  (resolved cfg up))\<rparr>"

text \<open>The items the alert lists, and the requests of a cycle.\<close>

definition alert_items :: "config \<Rightarrow> upstream \<Rightarrow> alert_item list" where
  "alert_items cfg up =
     concat (map (\<lambda>proj. map (alert_of (project_name_of proj)) (filter (mine cfg) (items up proj)))
               (resolved cfg up))"

definition requests_of :: "config \<Rightarrow> upstream \<Rightarrow> endpoint list" where
  "requests_of cfg up =
     map ProjectSearch (REPOSITORIES cfg) @
     concat (map (\<lambda>proj. MergeRequests (proj_id proj) #
                          map (\<lambda>mr. LabelEvents (proj_id proj) (iid mr)) (items up proj))
               (resolved cfg up))"

text \<open>The counters of a project in \<open>metrics\<close>, and the effect of one item on them.\<close>

definition counters :: "(string \<times> stats) list \<Rightarrow> string \<Rightarrow> stats" where
  "counters metrics project_name =
     (case map_of metrics project_name of Some s \<Rightarrow> s | None \<Rightarrow> zero_stats)"

definition count_mr :: "config \<Rightarrow> merge_request \<Rightarrow> stats \<Rightarrow> stats" where
  "count_mr cfg mr s =
     \<lparr>total_mrs = total_mrs s + 1,
      rework_mrs = rework_mrs s + (if LABEL_REWORK cfg \<in> set (labels mr) then 1 else 0),
      rework_assigned_to_me = rework_assigned_to_me s + (if mine cfg mr then 1 else 0),
      in_review_mrs = in_review_mrs s + (if LABEL_IN_REVIEW cfg \<in> set (labels mr) then 1 else 0),
      rework_done_mrs =
        rework_done_mrs s + (if LABEL_REWORK_DONE cfg \<in> set (labels mr) then 1 else 0)\<rparr>"

definition tally :: "config \<Rightarrow> merge_request list \<Rightarrow> stats \<Rightarrow> stats" where
  "tally cfg mrs s = foldl (\<lambda>s mr. count_mr cfg mr s) s mrs"

text \<open>Successive scrapes, each with its upstream, clock, mail transport and time.\<close>

fun scrapes ::
  "config \<Rightarrow> (upstream \<times> (int \<Rightarrow> int \<Rightarrow> datetime) \<times> bool \<times> real) list \<Rightarrow> world \<Rightarrow> world" where
  "scrapes cfg [] w = w"
| "scrapes cfg ((up, clock, smtp_ok, now) # rest) w =
     scrapes cfg rest (snd (collect_metrics cfg up clock smtp_ok now w))"

section \<open>Example data\<close>

definition hr :: "int \<Rightarrow> datetime" where
  "hr n = n * 3600000000"

definition ex_cfg :: config where
  "ex_cfg = \<lparr>REPOSITORIES = [''exporter''], LABEL_REWORK = ''rework'',
             LABEL_IN_REVIEW = ''in-review'', LABEL_REWORK_DONE = ''rework-done'',
             YOUR_EMAIL = ''alice@example.com'', SMTP_USER = ''bot'',
             SMTP_PASSWORD = ''secret''\<rparr>"

definition ex_project :: project where
  "ex_project = \<lparr>proj_id = 1, proj_path = ''exporter'', proj_name = ''Exporter'',
                 path_with_namespace = Some ''team/exporter''\<rparr>"

definition ex_mr :: merge_request where
  "ex_mr = \<lparr>iid = 7, mr_created_at = Stamp 0, labels = [''rework''],
            assignees = [\<lparr>username = Some ''alice'', display_name = ''Alice''\<rparr>],
            source_branch = Some ''fix-cache'', target_branch = None,
            title = Some ''Fix the cache'', web_url = Some ''https://gitlab/7''\<rparr>"

definition add_event :: "datetime \<Rightarrow> string \<Rightarrow> label_event" where
  "add_event t l = \<lparr>ev_created_at = Stamp t, ev_label = Some l, ev_action = ''add''\<rparr>"

definition remove_event :: "datetime \<Rightarrow> string \<Rightarrow> label_event" where
  "remove_event t l = \<lparr>ev_created_at = Stamp t, ev_label = Some l, ev_action = ''remove''\<rparr>"

text \<open>An upstream with one project, the items \<open>mrs\<close> and the same label events for each.\<close>

definition ex_up :: "merge_request list \<Rightarrow> label_event list option \<Rightarrow> upstream" where
  "ex_up mrs events =
     \<lparr>search_projects = (\<lambda>repo_name. Some [ex_project]),
      merge_requests = (\<lambda>project_id. Some mrs),
      label_events = (\<lambda>project_id mr_iid. events)\<rparr>"

text \<open>Rework added, removed and added again, then rework done added twice.\<close>

definition ex_log_rework :: "label_event list" where
  "ex_log_rework =
     [add_event (hr 1) ''rework'', remove_event (hr 2) ''rework'', add_event (hr 3) ''rework'',
      add_event (hr 4) ''rework-done'', remove_event (hr 5) ''rework-done'',
      add_event (hr 6) ''rework-done'']"

text \<open>An item in review that never got the rework done label.\<close>

definition ex_log_open :: "label_event list" where
  "ex_log_open = [add_event (hr 1) ''rework'', add_event (hr 2) ''in-review'']"

text \<open>A log in chronological order where rework done is added before rework.\<close>

definition ex_log_done_first :: "label_event list" where
  "ex_log_done_first = [add_event (hr 1) ''rework-done'', add_event (hr 2) ''rework'']"

text \<open>Rework and rework done both added at the moment the item was created.\<close>

definition ex_log_zero :: "label_event list" where
  "ex_log_zero = [add_event 0 ''rework'', add_event 0 ''rework-done'']"

definition ex_clock :: "int \<Rightarrow> int \<Rightarrow> datetime" where
  "ex_clock project_id mr_iid = hr 9"

text \<open>A record with 0.01 hours in review and no other timing.\<close>

definition ex_bd :: branch_data where
  "ex_bd = \<lparr>bd_project = ''team/exporter'', bd_branch = ''fix-cache'',
            bd_target_branch = ''main'', bd_mr_title = ''Fix the cache'',
            time_in_rework = 0, time_in_review = 1 / 100, time_to_complete = 0,
            has_rework = True, has_in_review = True, has_rework_done = False\<rparr>"

text \<open>More items like \<open>ex_mr\<close>, and one whose creation time is not ISO 8601 text.\<close>

definition ex_mr2 :: merge_request where
  "ex_mr2 = ex_mr\<lparr>iid := 8, title := Some ''Second''\<rparr>"

definition ex_mr3 :: merge_request where
  "ex_mr3 = ex_mr\<lparr>iid := 9, title := Some ''Third''\<rparr>"

definition ex_mr_bad :: merge_request where
  "ex_mr_bad = ex_mr\<lparr>iid := 10, mr_created_at := Malformed\<rparr>"

text \<open>An item with the rework label whose assignee has the full address as username.\<close>

definition ex_mr_address :: merge_request where
  "ex_mr_address =
     ex_mr\<lparr>assignees := [\<lparr>username = Some ''alice@example.com'', display_name = ''alice''\<rparr>]\<rparr>"

text \<open>Upstreams with one, two and three rework items assigned to the identity.\<close>

definition ex_one :: upstream where
  "ex_one = ex_up [ex_mr] (Some ex_log_open)"

definition ex_two :: upstream where
  "ex_two = ex_up [ex_mr, ex_mr2] (Some ex_log_open)"

definition ex_three :: upstream where
  "ex_three = ex_up [ex_mr, ex_mr2, ex_mr3] (Some ex_log_open)"

text \<open>
  Upstreams where one kind of request fails, and one where the second of two items has a
  creation time that is not ISO 8601 text.
\<close>

definition ex_no_events :: upstream where
  "ex_no_events = ex_up [ex_mr, ex_mr2] None"

definition ex_no_items :: upstream where
  "ex_no_items = ex_two\<lparr>merge_requests := (\<lambda>project_id. None)\<rparr>"

definition ex_no_projects :: upstream where
  "ex_no_projects = ex_two\<lparr>search_projects := (\<lambda>repo_name. None)\<rparr>"

definition ex_with_bad :: upstream where
  "ex_with_bad = ex_up [ex_mr, ex_mr_bad] (Some ex_log_open)"

text \<open>An item whose creation time has no offset, next to label events that have one.\<close>

definition ex_mr_offsetless :: merge_request where
  "ex_mr_offsetless = ex_mr\<lparr>mr_created_at := Offsetless 0\<rparr>"

text \<open>
  Two monitored projects with one item each, and the same upstream with the item list of
  the second project failing.
\<close>

definition ex_cfg2 :: config where
  "ex_cfg2 = ex_cfg\<lparr>REPOSITORIES := [''exporter'', ''docs'']\<rparr>"

definition ex_project2 :: project where
  "ex_project2 = \<lparr>proj_id = 2, proj_path = ''docs'', proj_name = ''Docs'',
                  path_with_namespace = Some ''team/docs''\<rparr>"

definition ex_both :: upstream where
  "ex_both =
     \<lparr>search_projects = (\<lambda>repo_name. Some [ex_project, ex_project2]),
      merge_requests = (\<lambda>project_id. if project_id = 1 then Some [ex_mr] else Some [ex_mr2]),
      label_events = (\<lambda>project_id mr_iid. Some ex_log_open)\<rparr>"

definition ex_docs_down :: upstream where
  "ex_docs_down =
     ex_both\<lparr>merge_requests := (\<lambda>project_id. if project_id = 1 then Some [ex_mr] else None)\<rparr>"

section \<open>Evaluating the model on the example data\<close>

lemmas ex_defs = ex_cfg_def ex_up_def ex_mr_def ex_project_def ex_clock_def hr_def
  add_event_def remove_event_def initial_world_def

lemmas run_defs = collect_metrics_def get_all_projects_def process_project_def
  process_mr_def calculate_time_in_state_def time_in_state_def get_mr_label_events_def get_merge_requests_def
  gitlab_api_def finish_cycle_def send_email_alert_def record_mr_def branch_data_of_def
  alert_of_def bump_def or0_def
  get_default_def no_gathered_def zero_stats_def no_marks_def mark_event_def durations_def
  hours_def assigned_to_me_def email_user_def

lemmas spec_defs = data_parses_def resolved_def items_def item_parses_def item_events_def
  timestamps_parse_def alert_items_def requests_of_def mine_def project_name_of_def
  List.map_filter_simps

lemmas ex_more_defs = ex_one_def ex_two_def ex_three_def ex_mr2_def ex_mr3_def ex_mr_bad_def
  ex_log_open_def ex_no_events_def ex_no_items_def ex_no_projects_def ex_with_bad_def
  ex_mr_offsetless_def ex_cfg2_def ex_project2_def ex_both_def ex_docs_down_def

section \<open>Properties of calculate\_time\_in\_state\<close>

lemma first_add_time_Nil: "first_add_time l [] = None"
  by (simp add: first_add_time_def)

lemma first_add_time_Cons:
  "first_add_time l (e # es) =
     (if is_add l e then (case ev_created_at e of Stamp t \<Rightarrow> Some t | _ \<Rightarrow> None)
      else first_add_time l es)"
  by (simp add: first_add_time_def)

text \<open>
  The loop ends without an exception when every event timestamp parses, and from aware
  times it records aware times.
\<close>

lemma mark_event_aware: "aware_marks s \<Longrightarrow> aware_marks (mark_event cfg e (Aware t) s)"
  by (auto simp: aware_marks_def mark_event_def split: option.splits)

lemma scan_events_aware:
  "list_all (\<lambda>e. is_stamp (ev_created_at e)) events \<Longrightarrow> aware_marks s \<Longrightarrow>
   \<exists>s'. scan_events cfg events s = Inr s' \<and> aware_marks s'"
proof (induction events arbitrary: s)
  case Nil
  then show ?case by simp
next
  case (Cons e es)
  from Cons.prems(1) obtain t where t: "ev_created_at e = Stamp t"
    by (cases "ev_created_at e") auto
  from Cons.prems(1) have rest: "list_all (\<lambda>e. is_stamp (ev_created_at e)) es"
    by simp
  from Cons.IH[OF rest mark_event_aware[OF Cons.prems(2)], of cfg e t] t
  show ?case by simp
qed

lemma scan_events_total:
  "list_all (\<lambda>e. is_stamp (ev_created_at e)) events \<Longrightarrow>
   \<exists>s'. scan_events cfg events no_marks = Inr s' \<and> aware_marks s'"
  by (rule scan_events_aware) (simp_all add: aware_marks_def no_marks_def)

text \<open>Between aware times no subtraction raises.\<close>

lemma durations_aware:
  "durations (Aware c) now
     \<lparr>rework_added = map_option Aware r, in_review_added = map_option Aware v,
      rework_done_added = map_option Aware d\<rparr> = Inr (aware_durations c now r v d)"
  by (cases r; cases v; cases d) (simp_all add: durations_def aware_durations_def)

lemma aware_marks_shape:
  assumes "aware_marks s"
  shows "\<exists>r v d. s = \<lparr>rework_added = map_option Aware r, in_review_added = map_option Aware v,
                       rework_done_added = map_option Aware d\<rparr>"
proof -
  have opt: "\<exists>y. x = map_option Aware y"
    if "case x of None \<Rightarrow> True | Some t \<Rightarrow> is_aware t" for x
  proof (cases x)
    case None
    then show ?thesis by simp
  next
    case (Some t)
    with that obtain u where "t = Aware u" by (cases t) simp_all
    with Some have "x = map_option Aware (Some u)" by simp
    then show ?thesis by blast
  qed
  from assms obtain r v d where "rework_added s = map_option Aware r"
    "in_review_added s = map_option Aware v" "rework_done_added s = map_option Aware d"
    unfolding aware_marks_def using opt by metis
  then have "s = \<lparr>rework_added = map_option Aware r, in_review_added = map_option Aware v,
                  rework_done_added = map_option Aware d\<rparr>"
    by (cases s) simp
  then show ?thesis by blast
qed

lemma durations_aware_total:
  assumes "aware_marks s"
  shows "\<exists>t. durations (Aware c) now s = Inr t"
proof -
  from aware_marks_shape[OF assms] obtain r v d where
    "s = \<lparr>rework_added = map_option Aware r, in_review_added = map_option Aware v,
          rework_done_added = map_option Aware d\<rparr>"
    by blast
  then have "durations (Aware c) now s = Inr (aware_durations c now r v d)"
    by (simp only: durations_aware)
  then show ?thesis by blast
qed

text \<open>
  With three different label names, each variable ends as the time of the first add of
  its label, unless it was set before the loop.
\<close>

lemma scan_events_marks:
  assumes "labels_distinct cfg" and "list_all (\<lambda>e. is_stamp (ev_created_at e)) events"
  shows "scan_events cfg events s =
           Inr \<lparr>rework_added =
                  or_else (rework_added s)
                    (map_option Aware (first_add_time (LABEL_REWORK cfg) events)),
                in_review_added =
                  or_else (in_review_added s)
                    (map_option Aware (first_add_time (LABEL_IN_REVIEW cfg) events)),
                rework_done_added =
                  or_else (rework_done_added s)
                    (map_option Aware (first_add_time (LABEL_REWORK_DONE cfg) events))\<rparr>"
  using assms
proof (induction events arbitrary: s)
  case Nil
  then show ?case
    by (simp add: first_add_time_Nil or_else_def split: option.splits)
next
  case (Cons e es)
  from Cons.prems obtain t where t: "ev_created_at e = Stamp t"
    by (cases "ev_created_at e") auto
  have rest: "list_all (\<lambda>e. is_stamp (ev_created_at e)) es"
    using Cons.prems by simp
  show ?case
    using Cons.prems(1) t
    by (cases "ev_label e")
       (auto simp: Cons.IH[OF Cons.prems(1) rest] first_add_time_Cons mark_event_def
                   is_add_def labels_distinct_def or_else_def split: option.splits)
qed

text \<open>Only an add of the rework done label sets \<open>rework_done_added\<close>.\<close>

lemma scan_events_done_None:
  "scan_events cfg events s = Inr s' \<Longrightarrow> rework_done_added s = None \<Longrightarrow>
   find (is_add (LABEL_REWORK_DONE cfg)) events = None \<Longrightarrow> rework_done_added s' = None"
proof (induction events arbitrary: s)
  case Nil
  then show ?case by simp
next
  case (Cons e es)
  from Cons.prems(1) obtain t where t: "fromisoformat (ev_created_at e) = Inr t"
    by (cases "fromisoformat (ev_created_at e)") auto
  from Cons.prems(3) have e: "\<not> is_add (LABEL_REWORK_DONE cfg) e"
    and es: "find (is_add (LABEL_REWORK_DONE cfg)) es = None"
    by (auto split: if_splits)
  have "rework_done_added (mark_event cfg e t s) = None"
    using e Cons.prems(2) by (auto simp: mark_event_def is_add_def split: option.splits)
  moreover have "scan_events cfg es (mark_event cfg e t s) = Inr s'"
    using Cons.prems(1) t by simp
  ultimately show ?case
    using Cons.IH es by blast
qed

text \<open>Without a time for rework done, two of the three durations are absent.\<close>

lemma durations_no_done:
  assumes "rework_done_added s = None"
  shows "\<exists>t_review. durations c now s = Inr (None, t_review, None)"
  using assms
  by (cases "rework_added s"; cases "in_review_added s") (simp_all add: durations_def)

text \<open>What \<open>calculate_time_in_state\<close> returns for a log that parses, by first adds.\<close>

lemma calculate_time_in_state_parsed:
  assumes "labels_distinct cfg"
    and "gitlab_api (label_events up project_id (iid mr)) = events"
    and "events \<noteq> []"
    and "mr_created_at mr = Stamp c"
    and "list_all (\<lambda>e. is_stamp (ev_created_at e)) events"
  shows "fst (calculate_time_in_state cfg up now mr project_id w) =
           Inr (aware_durations c now
                  (first_add_time (LABEL_REWORK cfg) events)
                  (first_add_time (LABEL_IN_REVIEW cfg) events)
                  (first_add_time (LABEL_REWORK_DONE cfg) events))"
  using assms(2,3,4)
  by (simp add: calculate_time_in_state_def time_in_state_def get_mr_label_events_def
                scan_events_marks[OF assms(1) assms(5)] no_marks_def or_else_def
                durations_aware)

text \<open>
  A creation time with no offset next to events with one: the subtraction at line 96
  raises.
\<close>

lemma offsetless_creation_raises:
  "time_in_state ex_cfg ex_mr_offsetless ex_log_rework (hr 9) = Inl TypeError"
  by (simp add: ex_defs run_defs time_in_state_def ex_mr_offsetless_def ex_log_rework_def)

section \<open>Properties of the exposition\<close>

lemma sample_lines_rework:
  "sample_lines ''gitlab_mr_time_in_rework_hours'' bd =
     (if 0 < time_in_rework bd
      then [''gitlab_mr_time_in_rework_hours'' @ item_labels bd @ '' '' @
              format_2f (time_in_rework bd)]
      else [])"
  by (simp add: sample_lines_def branch_lines_def item_labels_def branch_labels_def Let_def)

lemma sample_lines_review:
  "sample_lines ''gitlab_mr_time_in_review_hours'' bd =
     (if 0 < time_in_review bd
      then [''gitlab_mr_time_in_review_hours'' @ item_labels bd @ '' '' @
              format_2f (time_in_review bd)]
      else [])"
  by (simp add: sample_lines_def branch_lines_def item_labels_def branch_labels_def Let_def)

lemma sample_lines_complete:
  "sample_lines ''gitlab_mr_time_to_complete_hours'' bd =
     (if 0 < time_to_complete bd
      then [''gitlab_mr_time_to_complete_hours'' @ item_labels bd @ '' '' @
              format_2f (time_to_complete bd)]
      else [])"
  by (simp add: sample_lines_def branch_lines_def item_labels_def branch_labels_def Let_def)

lemma format_2f_hundredth: "format_2f (1 / 100) = ''0.01''"
  by (simp add: format_2f_def round_half_even_def show_nat.simps digit_def)

text \<open>\<open>x or 0\<close> keeps no difference between an absent duration and a duration of zero.\<close>

lemma or0_absent_or_zero: "absent_or_zero d \<Longrightarrow> or0 d = 0"
  by (cases d) (simp_all add: absent_or_zero_def or0_def)

text \<open>In the whole exposition the timing sample lines are those of the items.\<close>

lemma concat_map_Nil: "concat (map (\<lambda>x. []) xs) = []"
  by (induction xs) simp_all

lemma timing_lines_of_project:
  "filter (starts_with ''gitlab_mr_time_in_rework_hours{'') (project_lines entry) = []"
  "filter (starts_with ''gitlab_mr_time_in_review_hours{'') (project_lines entry) = []"
  "filter (starts_with ''gitlab_mr_time_to_complete_hours{'') (project_lines entry) = []"
  by (cases entry; simp add: project_lines_def)+

lemma timing_lines_of_header:
  "filter (starts_with ''gitlab_mr_time_in_rework_hours{'') header_lines = []"
  "filter (starts_with ''gitlab_mr_time_in_review_hours{'') header_lines = []"
  "filter (starts_with ''gitlab_mr_time_to_complete_hours{'') header_lines = []"
  by (simp_all add: header_lines_def)

lemma timing_lines_of_snapshot:
  "filter (starts_with ''gitlab_mr_time_in_rework_hours{'') (metric_lines snap) =
     concat (map (sample_lines ''gitlab_mr_time_in_rework_hours'') (branch_metrics snap))"
  "filter (starts_with ''gitlab_mr_time_in_review_hours{'') (metric_lines snap) =
     concat (map (sample_lines ''gitlab_mr_time_in_review_hours'') (branch_metrics snap))"
  "filter (starts_with ''gitlab_mr_time_to_complete_hours{'') (metric_lines snap) =
     concat (map (sample_lines ''gitlab_mr_time_to_complete_hours'') (branch_metrics snap))"
  by (simp_all add: metric_lines_def filter_concat timing_lines_of_project
        timing_lines_of_header sample_lines_def[abs_def] comp_def concat_map_Nil)

section \<open>Properties of collect\_metrics\<close>

lemma calculate_time_in_state_eq:
  "calculate_time_in_state cfg up now mr project_id w =
     (time_in_state cfg mr (gitlab_api (label_events up project_id (iid mr))) now,
      w\<lparr>requests := requests w @ [LabelEvents project_id (iid mr)]\<rparr>)"
  by (simp add: calculate_time_in_state_def get_mr_label_events_def)

lemma time_in_state_total:
  assumes "events = [] \<or> timestamps_parse mr events"
  shows "\<exists>t. time_in_state cfg mr events now = Inr t"
proof (cases "events = []")
  case True
  then show ?thesis by (simp add: time_in_state_def)
next
  case False
  with assms have p: "timestamps_parse mr events" by simp
  then obtain c where c: "mr_created_at mr = Stamp c"
    by (cases "mr_created_at mr") (auto simp: timestamps_parse_def)
  from p obtain s where s: "scan_events cfg events no_marks = Inr s" and a: "aware_marks s"
    using scan_events_total[of events cfg] by (auto simp: timestamps_parse_def)
  from durations_aware_total[OF a] obtain t where "durations (Aware c) now s = Inr t"
    by blast
  with False c s have "time_in_state cfg mr events now = Inr t"
    by (simp add: time_in_state_def)
  then show ?thesis by blast
qed

lemma bump_update: "bump k f (AList.update k s m) = AList.update k (f s) m"
  by (simp add: bump_def update_conv')

lemma counters_bump:
  "counters (bump k f m) k' = (if k' = k then f (counters m k) else counters m k')"
  by (simp add: counters_def bump_def update_conv')

text \<open>The counters after the body of the item loop, for an item whose durations are \<open>t\<close>.\<close>

lemma record_mr_metrics:
  assumes "l_metrics g = AList.update pn s m"
  shows "l_metrics
           (record_mr cfg pn mr t
              (g\<lparr>l_metrics := bump pn (\<lambda>s. s\<lparr>total_mrs := total_mrs s + 1\<rparr>) (l_metrics g)\<rparr>)) =
         AList.update pn (count_mr cfg mr s) m"
  using assms
  by (cases s) (simp add: record_mr_def Let_def bump_update count_mr_def mine_def)

lemma record_mr_branch_metrics:
  "l_branch_metrics (record_mr cfg pn mr t g) =
     l_branch_metrics g @ [branch_data_of cfg pn mr t]"
  by (simp add: record_mr_def Let_def)

lemma record_mr_rework_mrs:
  "l_rework_mrs (record_mr cfg pn mr t g) =
     l_rework_mrs g @ (if mine cfg mr then [alert_of pn mr] else [])"
  by (simp add: record_mr_def Let_def mine_def)

text \<open>The body of the item loop, for an item whose timestamps parse.\<close>

lemma process_mr_eq:
  assumes "item_parses up proj mr" and "l_metrics g = AList.update (project_name_of proj) s m"
  shows "process_mr cfg up clock (proj_id proj) (project_name_of proj) mr g w =
           (Inr \<lparr>l_metrics = AList.update (project_name_of proj) (count_mr cfg mr s) m,
                 l_branch_metrics = l_branch_metrics g @ [item_record cfg up clock proj mr],
                 l_rework_mrs =
                   l_rework_mrs g @
                   (if mine cfg mr then [alert_of (project_name_of proj) mr] else [])\<rparr>,
            w\<lparr>requests := requests w @ [LabelEvents (proj_id proj) (iid mr)]\<rparr>)"
proof -
  from assms(1) have "item_events up proj mr = [] \<or> timestamps_parse mr (item_events up proj mr)"
    by (simp add: item_parses_def)
  from time_in_state_total[OF this] obtain t where
    t: "time_in_state cfg mr (item_events up proj mr) (clock (proj_id proj) (iid mr)) = Inr t"
    by blast
  then have rec: "item_record cfg up clock proj mr = branch_data_of cfg (project_name_of proj) mr t"
    by (simp add: item_record_def item_timing_def)
  have calc: "calculate_time_in_state cfg up (clock (proj_id proj) (iid mr)) mr (proj_id proj) w =
                (Inr t, w\<lparr>requests := requests w @ [LabelEvents (proj_id proj) (iid mr)]\<rparr>)"
    using t by (simp add: calculate_time_in_state_eq item_events_def)
  have "record_mr cfg (project_name_of proj) mr t
          (g\<lparr>l_metrics :=
               bump (project_name_of proj) (\<lambda>s. s\<lparr>total_mrs := total_mrs s + 1\<rparr>)
                 (l_metrics g)\<rparr>) =
        \<lparr>l_metrics = AList.update (project_name_of proj) (count_mr cfg mr s) m,
         l_branch_metrics = l_branch_metrics g @ [item_record cfg up clock proj mr],
         l_rework_mrs =
           l_rework_mrs g @ (if mine cfg mr then [alert_of (project_name_of proj) mr] else [])\<rparr>"
    by (rule gathered.equality)
       (simp_all only: record_mr_metrics[OF assms(2)] record_mr_branch_metrics
          record_mr_rework_mrs rec gathered.simps,
        simp_all)
  then show ?thesis
    unfolding process_mr_def Let_def calc
    by (simp only: prod.case sum.case)
qed

lemma tally_Cons: "tally cfg (mr # mrs) s = tally cfg mrs (count_mr cfg mr s)"
  by (simp add: tally_def)

lemma tally_stats:
  "tally cfg mrs s =
     \<lparr>total_mrs = total_mrs s + total_mrs (stats_of cfg mrs),
      rework_mrs = rework_mrs s + rework_mrs (stats_of cfg mrs),
      rework_assigned_to_me = rework_assigned_to_me s + rework_assigned_to_me (stats_of cfg mrs),
      in_review_mrs = in_review_mrs s + in_review_mrs (stats_of cfg mrs),
      rework_done_mrs = rework_done_mrs s + rework_done_mrs (stats_of cfg mrs)\<rparr>"
proof (induction mrs arbitrary: s)
  case Nil
  then show ?case by (simp add: tally_def stats_of_def)
next
  case (Cons mr mrs)
  show ?case
    unfolding tally_Cons Cons.IH
    by (simp add: count_mr_def stats_of_def)
qed

lemma tally_zero: "tally cfg mrs zero_stats = stats_of cfg mrs"
  unfolding tally_stats by (simp add: zero_stats_def)

text \<open>The item loop of a project whose items all parse.\<close>

lemma mr_loop_eq:
  assumes "list_all (item_parses up proj) mrs"
    and "l_metrics g = AList.update (project_name_of proj) s m"
  shows "mr_loop cfg up clock (proj_id proj) (project_name_of proj) mrs g w =
           (Inr \<lparr>l_metrics = AList.update (project_name_of proj) (tally cfg mrs s) m,
                 l_branch_metrics = l_branch_metrics g @ map (item_record cfg up clock proj) mrs,
                 l_rework_mrs =
                   l_rework_mrs g @ map (alert_of (project_name_of proj)) (filter (mine cfg) mrs)\<rparr>,
            w\<lparr>requests :=
                 requests w @ map (\<lambda>mr. LabelEvents (proj_id proj) (iid mr)) mrs\<rparr>)"
  using assms
proof (induction mrs arbitrary: g s w)
  case Nil
  then show ?case by (simp add: tally_def gathered.equality)
next
  case (Cons mr mrs)
  from Cons.prems have p: "item_parses up proj mr" and ps: "list_all (item_parses up proj) mrs"
    by simp_all
  show ?case
    by (simp add: process_mr_eq[OF p Cons.prems(2)] Cons.IH[OF ps] tally_Cons)
qed

text \<open>The body of the project loop: the counters of the project start again from zero.\<close>

lemma process_project_eq:
  assumes "list_all (item_parses up proj) (items up proj)"
  shows "process_project cfg up clock proj g w =
           (Inr \<lparr>l_metrics =
                   AList.update (project_name_of proj) (stats_of cfg (items up proj)) (l_metrics g),
                 l_branch_metrics =
                   l_branch_metrics g @ map (item_record cfg up clock proj) (items up proj),
                 l_rework_mrs =
                   l_rework_mrs g @
                   map (alert_of (project_name_of proj)) (filter (mine cfg) (items up proj))\<rparr>,
            w\<lparr>requests :=
                 requests w @ MergeRequests (proj_id proj) #
                 map (\<lambda>mr. LabelEvents (proj_id proj) (iid mr)) (items up proj)\<rparr>)"
proof -
  define g0 where
    "g0 = g\<lparr>l_metrics := AList.update (project_name_of proj) zero_stats (l_metrics g)\<rparr>"
  have m: "l_metrics g0 = AList.update (project_name_of proj) zero_stats (l_metrics g)"
    by (simp add: g0_def)
  show ?thesis
    unfolding process_project_def Let_def get_merge_requests_def
    using mr_loop_eq[OF assms m, of cfg clock]
    by (simp add: g0_def items_def project_name_of_def tally_zero)
qed

text \<open>The project loop over projects whose items all parse.\<close>

lemma project_loop_eq:
  assumes "list_all (\<lambda>proj. list_all (item_parses up proj) (items up proj)) projects"
  shows "project_loop cfg up clock projects g w =
           (Inr \<lparr>l_metrics =
                   foldl (\<lambda>m proj. AList.update (project_name_of proj)
                                      (stats_of cfg (items up proj)) m)
                     (l_metrics g) projects,
                 l_branch_metrics =
                   l_branch_metrics g @
                   concat (map (\<lambda>proj. map (item_record cfg up clock proj) (items up proj))
                             projects),
                 l_rework_mrs =
                   l_rework_mrs g @
                   concat (map (\<lambda>proj. map (alert_of (project_name_of proj))
                                         (filter (mine cfg) (items up proj))) projects)\<rparr>,
            w\<lparr>requests :=
                 requests w @
                 concat (map (\<lambda>proj. MergeRequests (proj_id proj) #
                                      map (\<lambda>mr. LabelEvents (proj_id proj) (iid mr))
                                        (items up proj)) projects)\<rparr>)"
  using assms
proof (induction projects arbitrary: g w)
  case Nil
  then show ?case by (simp add: gathered.equality)
next
  case (Cons proj projects)
  from Cons.prems have p: "list_all (item_parses up proj) (items up proj)"
    and ps: "list_all (\<lambda>proj. list_all (item_parses up proj) (items up proj)) projects"
    by simp_all
  show ?case
    by (simp add: process_project_eq[OF p] Cons.IH[OF ps])
qed

lemma find_projects_eq:
  "find_projects up names projects w =
     (projects @
      List.map_filter
        (\<lambda>repo_name. find (\<lambda>proj. proj_path proj = repo_name \<or> proj_name proj = repo_name)
                       (gitlab_api (search_projects up repo_name))) names,
      w\<lparr>requests := requests w @ map ProjectSearch names\<rparr>)"
proof (induction names arbitrary: projects w)
  case Nil
  then show ?case by simp
next
  case (Cons repo_name names)
  show ?case
    by (simp add: Cons.IH Let_def split: option.splits)
qed

lemma get_all_projects_eq:
  "get_all_projects cfg up w =
     (resolved cfg up, w\<lparr>requests := requests w @ map ProjectSearch (REPOSITORIES cfg)\<rparr>)"
  by (simp add: get_all_projects_def find_projects_eq resolved_def)

text \<open>A whole cycle over data that parses: what is returned and what becomes of the world.\<close>

lemma collect_metrics_cycle:
  assumes "data_parses cfg up" and "\<not> now - last_update (metrics_cache w) < 10"
  shows "collect_metrics cfg up clock smtp_ok now w =
           (case finish_cycle cfg smtp_ok now
                   \<lparr>l_metrics = counters_of cfg up,
                    l_branch_metrics = branch_metrics (snapshot_of cfg up clock),
                    l_rework_mrs = alert_items cfg up\<rparr>
                   (w\<lparr>requests := requests w @ requests_of cfg up\<rparr>) of
              (snap, w') \<Rightarrow> (Inr snap, w'))"
proof -
  from assms(1) have
    p: "list_all (\<lambda>proj. list_all (item_parses up proj) (items up proj)) (resolved cfg up)"
    by (simp add: data_parses_def)
  show ?thesis
    unfolding collect_metrics_def get_all_projects_eq
    using assms(2)
    by (simp add: project_loop_eq[OF p] no_gathered_def counters_of_def snapshot_of_def
                  alert_items_def requests_of_def split: prod.splits)
qed

text \<open>Until the end of a cycle only the log of requests changes; an exception keeps the cache.\<close>

lemma process_mr_cache:
  "metrics_cache (snd (process_mr cfg up clock project_id project_name mr g w)) = metrics_cache w"
  by (simp add: process_mr_def Let_def calculate_time_in_state_eq split: sum.splits)

lemma mr_loop_cache:
  "metrics_cache (snd (mr_loop cfg up clock project_id project_name mrs g w)) = metrics_cache w"
proof (induction mrs arbitrary: g w)
  case Nil
  then show ?case by simp
next
  case (Cons mr mrs)
  obtain r w' where step: "process_mr cfg up clock project_id project_name mr g w = (r, w')"
    by (cases "process_mr cfg up clock project_id project_name mr g w")
  with process_mr_cache[of cfg up clock project_id project_name mr g w]
  have w': "metrics_cache w' = metrics_cache w" by simp
  show ?case
    using step w' Cons.IH by (cases r) simp_all
qed

lemma process_project_cache:
  "metrics_cache (snd (process_project cfg up clock proj g w)) = metrics_cache w"
  by (simp add: process_project_def Let_def get_merge_requests_def mr_loop_cache)

lemma project_loop_cache:
  "metrics_cache (snd (project_loop cfg up clock projects g w)) = metrics_cache w"
proof (induction projects arbitrary: g w)
  case Nil
  then show ?case by simp
next
  case (Cons proj projects)
  obtain r w' where step: "process_project cfg up clock proj g w = (r, w')"
    by (cases "process_project cfg up clock proj g w")
  with process_project_cache[of cfg up clock proj g w]
  have w': "metrics_cache w' = metrics_cache w" by simp
  show ?case
    using step w' Cons.IH by (cases r) simp_all
qed

lemma collect_metrics_raise_keeps_cache:
  assumes "collect_metrics cfg up clock smtp_ok now w = (Inl e, w')"
  shows "metrics_cache w' = metrics_cache w"
proof -
  obtain r w2 where loop:
    "project_loop cfg up clock (resolved cfg up) no_gathered
       (w\<lparr>requests := requests w @ map ProjectSearch (REPOSITORIES cfg)\<rparr>) = (r, w2)"
    by (cases "project_loop cfg up clock (resolved cfg up) no_gathered
                 (w\<lparr>requests := requests w @ map ProjectSearch (REPOSITORIES cfg)\<rparr>)")
  from project_loop_cache[of cfg up clock "resolved cfg up" no_gathered
         "w\<lparr>requests := requests w @ map ProjectSearch (REPOSITORIES cfg)\<rparr>"] loop
  have "metrics_cache w2 = metrics_cache w" by simp
  with assms loop show ?thesis
    by (cases r)
       (auto simp: collect_metrics_def get_all_projects_eq split: if_splits prod.splits)
qed

text \<open>What a call returns is what the cache holds afterwards.\<close>

lemma collect_metrics_returns_cached:
  assumes "collect_metrics cfg up clock smtp_ok now w = (Inr snap, w')"
  shows "data (metrics_cache w') = snap"
  using assms
  by (auto simp: collect_metrics_def finish_cycle_def Let_def
           split: if_splits prod.splits sum.splits)

text \<open>The world after a cycle over data that parses.\<close>

lemma collect_metrics_cycle_result:
  assumes "data_parses cfg up" and "\<not> now - last_update (metrics_cache w) < 10"
  shows "fst (collect_metrics cfg up clock smtp_ok now w) = Inr (snapshot_of cfg up clock)"
    and "metrics_cache (snd (collect_metrics cfg up clock smtp_ok now w)) =
           \<lparr>last_update = now, data = snapshot_of cfg up clock,
            last_rework_count = Some (length (alert_items cfg up))\<rparr>"
    and "requests (snd (collect_metrics cfg up clock smtp_ok now w)) =
           requests w @ requests_of cfg up"
    and "alerts (snd (collect_metrics cfg up clock smtp_ok now w)) =
           (if get_default 0 (last_rework_count (metrics_cache w)) < length (alert_items cfg up)
            then alerts w @ [alert_items cfg up] else alerts w)"
  unfolding collect_metrics_cycle[OF assms]
  by (auto simp: finish_cycle_def Let_def send_email_alert_def snapshot_of_def)

text \<open>The counter of rework items assigned to the identity, through the body of the loop.\<close>

lemma record_mr_assigned_counter:
  "rework_assigned_to_me (counters (l_metrics (record_mr cfg pn mr t g)) pn) =
     rework_assigned_to_me (counters (l_metrics g) pn) + (if mine cfg mr then 1 else 0)"
  by (simp add: record_mr_def Let_def counters_bump mine_def)

lemma process_mr_returns:
  assumes "fst (process_mr cfg up clock project_id pn mr g w) = Inr g'"
  shows "\<exists>t. g' = record_mr cfg pn mr t
                  (g\<lparr>l_metrics :=
                       bump pn (\<lambda>s. s\<lparr>total_mrs := total_mrs s + 1\<rparr>) (l_metrics g)\<rparr>)"
  using assms
  by (cases "time_in_state cfg mr (gitlab_api (label_events up project_id (iid mr)))
               (clock project_id (iid mr))")
     (auto simp: process_mr_def Let_def calculate_time_in_state_eq simp del: One_nat_def)

lemma process_mr_total:
  assumes "gitlab_api (label_events up project_id (iid mr)) = [] \<or>
           timestamps_parse mr (gitlab_api (label_events up project_id (iid mr)))"
  shows "\<exists>g'. fst (process_mr cfg up clock project_id pn mr g w) = Inr g'"
proof -
  from time_in_state_total[OF assms] obtain t where
    "time_in_state cfg mr (gitlab_api (label_events up project_id (iid mr)))
       (clock project_id (iid mr)) = Inr t"
    by blast
  then show ?thesis
    by (simp add: process_mr_def Let_def calculate_time_in_state_eq)
qed

text \<open>With different project names, each project has its own entry of counters.\<close>

lemma counters_foldl_update:
  assumes "distinct (map name projects)" and "proj \<in> set projects"
  shows "map_of (foldl (\<lambda>m p. AList.update (name p) (val p) m) init projects) (name proj) =
           Some (val proj)"
  using assms
proof (induction projects rule: rev_induct)
  case Nil
  then show ?case by simp
next
  case (snoc p projects)
  show ?case
  proof (cases "proj = p")
    case True
    then show ?thesis by (simp add: update_conv')
  next
    case False
    with snoc.prems have a: "proj \<in> set projects" and d: "distinct (map name projects)"
      by auto
    from snoc.prems(1) have "name p \<notin> name ` set projects"
      by simp
    with a have "name proj \<noteq> name p"
      by (metis imageI)
    with snoc.IH[OF d a] show ?thesis by (simp add: update_conv')
  qed
qed

lemma counters_of_project:
  assumes "distinct (map project_name_of (resolved cfg up))" and "proj \<in> set (resolved cfg up)"
  shows "counters (counters_of cfg up) (project_name_of proj) = stats_of cfg (items up proj)"
  unfolding counters_def counters_of_def
  using counters_foldl_update[OF assms, of "\<lambda>p. stats_of cfg (items up p)" "[]"]
  by simp

text \<open>
  With different project names the entries of \<open>metrics\<close> are those of the projects,
  one each and in their order.
\<close>

lemma update_absent: "k \<notin> fst ` set al \<Longrightarrow> AList.update k v al = al @ [(k, v)]"
  by (induction al) auto

lemma foldl_update_distinct:
  assumes "distinct (map name projects)"
  shows "foldl (\<lambda>m p. AList.update (name p) (val p) m) [] projects =
           map (\<lambda>p. (name p, val p)) projects"
  using assms
proof (induction projects rule: rev_induct)
  case Nil
  then show ?case by simp
next
  case (snoc p projects)
  from snoc.prems have d: "distinct (map name projects)"
    and "name p \<notin> name ` set projects"
    by simp_all
  then have "name p \<notin> fst ` set (map (\<lambda>p. (name p, val p)) projects)"
    by (simp add: image_image)
  from update_absent[OF this] show ?case
    by (simp add: snoc.IH[OF d])
qed

lemma counters_of_distinct:
  assumes "distinct (map project_name_of (resolved cfg up))"
  shows "counters_of cfg up =
           map (\<lambda>proj. (project_name_of proj, stats_of cfg (items up proj))) (resolved cfg up)"
  unfolding counters_of_def
  using foldl_update_distinct[OF assms, of "\<lambda>p. stats_of cfg (items up p)"] .

section \<open>The claims\<close>

text \<open>
  C1. Let the three label names differ and let every timestamp of the item parse. If the
  log fetched for the item has its first add of the rework label at \<open>T1\<close> and its first
  add of the rework done label at \<open>T2\<close>, then \<open>calculate_time_in_state\<close> returns as
  \<open>time_in_rework\<close> the \<open>T2 - T1\<close> microseconds expressed in hours. The log is
  arbitrary otherwise: remove events and later adds of either label do not change the
  value.
\<close>

theorem C1_time_in_rework:
  assumes "labels_distinct cfg"
    and "label_events up project_id (iid mr) = Some events"
    and "timestamps_parse mr events"
    and "first_add_time (LABEL_REWORK cfg) events = Some T1"
    and "first_add_time (LABEL_REWORK_DONE cfg) events = Some T2"
  shows "\<exists>t_review t_complete.
           fst (calculate_time_in_state cfg up now mr project_id w) =
             Inr (Some (real_of_int (T2 - T1) / 1000000 / 3600), t_review, t_complete)"
proof -
  from assms(3) obtain c where c: "mr_created_at mr = Stamp c"
    by (cases "mr_created_at mr") (auto simp: timestamps_parse_def)
  have ne: "events \<noteq> []"
    using assms(4) by (auto simp: first_add_time_Nil)
  have api: "gitlab_api (label_events up project_id (iid mr)) = events"
    using assms(2) by (simp add: gitlab_api_def)
  have parsed: "list_all (\<lambda>e. is_stamp (ev_created_at e)) events"
    using assms(3) by (simp add: timestamps_parse_def)
  show ?thesis
    unfolding calculate_time_in_state_parsed[OF assms(1) api ne c parsed]
    using assms(4,5) by (simp add: aware_durations_def hours_def)
qed

theorem C1_time_in_rework_witness:
  "first_add_time ''rework'' ex_log_rework = Some (hr 1) \<and>
   first_add_time ''rework-done'' ex_log_rework = Some (hr 4) \<and>
   (\<exists>t_review t_complete.
      fst (calculate_time_in_state ex_cfg (ex_up [ex_mr] (Some ex_log_rework)) (hr 9) ex_mr 1
             initial_world) = Inr (Some 3, t_review, t_complete))"
proof -
  have h1: "labels_distinct ex_cfg"
    by (simp add: labels_distinct_def ex_cfg_def)
  have h2: "label_events (ex_up [ex_mr] (Some ex_log_rework)) 1 (iid ex_mr) = Some ex_log_rework"
    by (simp add: ex_up_def)
  have h3: "timestamps_parse ex_mr ex_log_rework"
    by (simp add: timestamps_parse_def ex_mr_def ex_log_rework_def add_event_def
                  remove_event_def)
  have h4: "first_add_time (LABEL_REWORK ex_cfg) ex_log_rework = Some (hr 1)"
    by (simp add: first_add_time_def is_add_def ex_cfg_def ex_log_rework_def add_event_def
                  remove_event_def)
  have h5: "first_add_time (LABEL_REWORK_DONE ex_cfg) ex_log_rework = Some (hr 4)"
    by (simp add: first_add_time_def is_add_def ex_cfg_def ex_log_rework_def add_event_def
                  remove_event_def)
  from C1_time_in_rework[OF h1 h2 h3 h4 h5, of "hr 9" initial_world] h4 h5
  show ?thesis
    by (simp add: hr_def ex_cfg_def)
qed

text \<open>
  C2. A call of \<open>collect_metrics\<close> at a time less than 10 seconds after the last
  refresh returns the stored snapshot and leaves the world as it is: no request goes to
  the upstream API. So a second call inside the window returns the snapshot the call
  before it returned. When the window has elapsed (and the timestamps of the data parse,
  so that no exception leaves the cycle), the Collector runs: the requests of a cycle are
  sent, and the stored snapshot is replaced by the snapshot of the current upstream and the
  stored time by the time of the call. A cycle that raises leaves the cache as it was.
\<close>

theorem C2_result_cache:
  "(now - last_update (metrics_cache w) < 10 \<longrightarrow>
      collect_metrics cfg up clock smtp_ok now w = (Inr (data (metrics_cache w)), w)) \<and>
   (collect_metrics cfg up clock smtp_ok now w = (Inr snap, w1) \<and>
    now2 - last_update (metrics_cache w1) < 10 \<longrightarrow>
      collect_metrics cfg2 up2 clock2 smtp_ok2 now2 w1 = (Inr snap, w1)) \<and>
   (data_parses cfg up \<and> \<not> now - last_update (metrics_cache w) < 10 \<longrightarrow>
      fst (collect_metrics cfg up clock smtp_ok now w) = Inr (snapshot_of cfg up clock) \<and>
      data (metrics_cache (snd (collect_metrics cfg up clock smtp_ok now w))) =
        snapshot_of cfg up clock \<and>
      last_update (metrics_cache (snd (collect_metrics cfg up clock smtp_ok now w))) = now \<and>
      requests (snd (collect_metrics cfg up clock smtp_ok now w)) =
        requests w @ requests_of cfg up) \<and>
   (collect_metrics cfg up clock smtp_ok now w = (Inl e, w1) \<longrightarrow>
      metrics_cache w1 = metrics_cache w)"
proof -
  have hit: "collect_metrics cfg up clock smtp_ok now w = (Inr (data (metrics_cache w)), w)"
    if "now - last_update (metrics_cache w) < 10"
    using that by (simp add: collect_metrics_def)
  have again: "collect_metrics cfg2 up2 clock2 smtp_ok2 now2 w1 = (Inr snap, w1)"
    if "collect_metrics cfg up clock smtp_ok now w = (Inr snap, w1)"
      and "now2 - last_update (metrics_cache w1) < 10"
    using that(2) collect_metrics_returns_cached[OF that(1)]
    by (simp add: collect_metrics_def)
  have miss: "fst (collect_metrics cfg up clock smtp_ok now w) = Inr (snapshot_of cfg up clock) \<and>
      data (metrics_cache (snd (collect_metrics cfg up clock smtp_ok now w))) =
        snapshot_of cfg up clock \<and>
      last_update (metrics_cache (snd (collect_metrics cfg up clock smtp_ok now w))) = now \<and>
      requests (snd (collect_metrics cfg up clock smtp_ok now w)) =
        requests w @ requests_of cfg up"
    if "data_parses cfg up" and "\<not> now - last_update (metrics_cache w) < 10"
    using collect_metrics_cycle_result(1,2,3)[OF that, of clock smtp_ok] by simp
  have raise: "metrics_cache w1 = metrics_cache w"
    if "collect_metrics cfg up clock smtp_ok now w = (Inl e, w1)"
    using collect_metrics_raise_keeps_cache[OF that] .
  from hit again miss raise show ?thesis
    by blast
qed

theorem C2_result_cache_witness:
  "fst (collect_metrics ex_cfg (ex_up [ex_mr] (Some ex_log_open)) ex_clock True 100
          initial_world) =
     Inr (snapshot_of ex_cfg (ex_up [ex_mr] (Some ex_log_open)) ex_clock) \<and>
   requests (snd (collect_metrics ex_cfg (ex_up [ex_mr] (Some ex_log_open)) ex_clock True 100
                    initial_world)) =
     [ProjectSearch ''exporter'', MergeRequests 1, LabelEvents 1 7] \<and>
   collect_metrics ex_cfg (ex_up [] None) ex_clock False 109
     (snd (collect_metrics ex_cfg (ex_up [ex_mr] (Some ex_log_open)) ex_clock True 100
             initial_world)) =
     collect_metrics ex_cfg (ex_up [ex_mr] (Some ex_log_open)) ex_clock True 100 initial_world \<and>
   metrics_cache
     (snd (collect_metrics ex_cfg (ex_up [ex_mr_bad] (Some ex_log_open)) ex_clock True 100
             initial_world)) = metrics_cache initial_world"
proof -
  let ?up = "ex_up [ex_mr] (Some ex_log_open)"
  let ?first = "collect_metrics ex_cfg ?up ex_clock True 100 initial_world"
  have parses: "data_parses ex_cfg ?up"
    by (simp add: data_parses_def resolved_def items_def item_parses_def item_events_def
                  timestamps_parse_def gitlab_api_def ex_defs ex_log_open_def
                  List.map_filter_simps)
  have elapsed: "\<not> (100::real) - last_update (metrics_cache initial_world) < 10"
    by (simp add: initial_world_def)
  have reqs: "requests initial_world @ requests_of ex_cfg ?up =
                [ProjectSearch ''exporter'', MergeRequests 1, LabelEvents 1 7]"
    by (simp add: requests_of_def resolved_def items_def gitlab_api_def ex_defs
                  List.map_filter_simps)
  note inst = C2_result_cache[where now = 100 and w = initial_world and cfg = ex_cfg
                and up = ?up and clock = ex_clock and smtp_ok = True
                and snap = "snapshot_of ex_cfg ?up ex_clock" and ?w1.0 = "snd ?first"
                and ?now2.0 = 109 and ?cfg2.0 = ex_cfg and ?up2.0 = "ex_up [] None"
                and ?clock2.0 = ex_clock and ?smtp_ok2.0 = False and e = ValueError]
  from inst parses elapsed
  have miss: "fst ?first = Inr (snapshot_of ex_cfg ?up ex_clock)"
    and upd: "last_update (metrics_cache (snd ?first)) = 100"
    and req: "requests (snd ?first) = requests initial_world @ requests_of ex_cfg ?up"
    by blast+
  have pair: "?first = (Inr (snapshot_of ex_cfg ?up ex_clock), snd ?first)"
    using miss by (cases ?first) simp
  have window: "(109::real) - last_update (metrics_cache (snd ?first)) < 10"
    unfolding upd by simp
  from inst pair window
  have second: "collect_metrics ex_cfg (ex_up [] None) ex_clock False 109 (snd ?first) =
                  (Inr (snapshot_of ex_cfg ?up ex_clock), snd ?first)"
    by blast
  let ?bad = "collect_metrics ex_cfg (ex_up [ex_mr_bad] (Some ex_log_open)) ex_clock True 100
                initial_world"
  have bad: "?bad = (Inl ValueError, snd ?bad)"
    by (simp add: ex_defs run_defs ex_mr_bad_def ex_log_open_def Let_def)
  from C2_result_cache[where now = 100 and w = initial_world and cfg = ex_cfg
         and up = "ex_up [ex_mr_bad] (Some ex_log_open)" and clock = ex_clock and smtp_ok = True
         and ?w1.0 = "snd ?bad" and e = ValueError] bad
  have kept: "metrics_cache (snd ?bad) = metrics_cache initial_world"
    by blast
  show ?thesis
    using miss req reqs second pair kept by simp
qed

text \<open>
  C3. In a collection cycle (the window has elapsed and the data parses),
  \<open>send_email_alert\<close> is called exactly when the number of rework items assigned to
  the identity is greater than the stored count, with those items; and the stored count
  becomes the current number, whether or not an alert was sent and whatever the mail
  transport \<open>smtp_ok\<close> does. For four successive cycles with 2, 2, 1 and 3 such items,
  starting from a stored count of 0, alerts are sent in the first and the fourth cycle
  only.
\<close>

theorem C3_alert_gating:
  "(data_parses cfg up \<and> \<not> now - last_update (metrics_cache w) < 10 \<longrightarrow>
      alerts (snd (collect_metrics cfg up clock smtp_ok now w)) =
        (if get_default 0 (last_rework_count (metrics_cache w)) < length (alert_items cfg up)
         then alerts w @ [alert_items cfg up] else alerts w) \<and>
      last_rework_count (metrics_cache (snd (collect_metrics cfg up clock smtp_ok now w))) =
        Some (length (alert_items cfg up))) \<and>
   (data_parses cfg up1 \<and> data_parses cfg up2 \<and> data_parses cfg up3 \<and> data_parses cfg up4 \<and>
    length (alert_items cfg up1) = 2 \<and> length (alert_items cfg up2) = 2 \<and>
    length (alert_items cfg up3) = 1 \<and> length (alert_items cfg up4) = 3 \<and>
    get_default 0 (last_rework_count (metrics_cache w0)) = 0 \<and>
    \<not> t1 - last_update (metrics_cache w0) < 10 \<and>
    t1 + 10 \<le> t2 \<and> t2 + 10 \<le> t3 \<and> t3 + 10 \<le> t4 \<longrightarrow>
      alerts (scrapes cfg [(up1, c1, s1, t1)] w0) = alerts w0 @ [alert_items cfg up1] \<and>
      alerts (scrapes cfg [(up1, c1, s1, t1), (up2, c2, s2, t2)] w0) =
        alerts w0 @ [alert_items cfg up1] \<and>
      alerts (scrapes cfg [(up1, c1, s1, t1), (up2, c2, s2, t2), (up3, c3, s3, t3)] w0) =
        alerts w0 @ [alert_items cfg up1] \<and>
      alerts (scrapes cfg [(up1, c1, s1, t1), (up2, c2, s2, t2), (up3, c3, s3, t3),
                           (up4, c4, s4, t4)] w0) =
        alerts w0 @ [alert_items cfg up1, alert_items cfg up4])"
proof -
  have one: "alerts (snd (collect_metrics cfg up clock smtp_ok now w)) =
        (if get_default 0 (last_rework_count (metrics_cache w)) < length (alert_items cfg up)
         then alerts w @ [alert_items cfg up] else alerts w) \<and>
      last_rework_count (metrics_cache (snd (collect_metrics cfg up clock smtp_ok now w))) =
        Some (length (alert_items cfg up))"
    if "data_parses cfg up" and "\<not> now - last_update (metrics_cache w) < 10"
    for up clock smtp_ok now w
    using collect_metrics_cycle_result(2,4)[OF that, of clock smtp_ok] by simp
  have four:
     "alerts (scrapes cfg [(up1, c1, s1, t1)] w0) = alerts w0 @ [alert_items cfg up1] \<and>
      alerts (scrapes cfg [(up1, c1, s1, t1), (up2, c2, s2, t2)] w0) =
        alerts w0 @ [alert_items cfg up1] \<and>
      alerts (scrapes cfg [(up1, c1, s1, t1), (up2, c2, s2, t2), (up3, c3, s3, t3)] w0) =
        alerts w0 @ [alert_items cfg up1] \<and>
      alerts (scrapes cfg [(up1, c1, s1, t1), (up2, c2, s2, t2), (up3, c3, s3, t3),
                           (up4, c4, s4, t4)] w0) =
        alerts w0 @ [alert_items cfg up1, alert_items cfg up4]"
    if p: "data_parses cfg up1" "data_parses cfg up2" "data_parses cfg up3" "data_parses cfg up4"
      and n: "length (alert_items cfg up1) = 2" "length (alert_items cfg up2) = 2"
        "length (alert_items cfg up3) = 1" "length (alert_items cfg up4) = 3"
      and start: "get_default 0 (last_rework_count (metrics_cache w0)) = 0"
        "\<not> t1 - last_update (metrics_cache w0) < 10"
      and later: "t1 + 10 \<le> t2" "t2 + 10 \<le> t3" "t3 + 10 \<le> t4"
  proof -
    define w1 where "w1 = snd (collect_metrics cfg up1 c1 s1 t1 w0)"
    define w2 where "w2 = snd (collect_metrics cfg up2 c2 s2 t2 w1)"
    define w3 where "w3 = snd (collect_metrics cfg up3 c3 s3 t3 w2)"
    define w4 where "w4 = snd (collect_metrics cfg up4 c4 s4 t4 w3)"
    have c1: "metrics_cache w1 =
                \<lparr>last_update = t1, data = snapshot_of cfg up1 c1, last_rework_count = Some 2\<rparr>"
      and a1: "alerts w1 = alerts w0 @ [alert_items cfg up1]"
      using collect_metrics_cycle_result(2,4)[OF p(1) start(2), of c1 s1] n(1) start(1)
      by (simp_all add: w1_def)
    have e2: "\<not> t2 - last_update (metrics_cache w1) < 10"
      using later(1) by (simp add: c1)
    have c2: "metrics_cache w2 =
                \<lparr>last_update = t2, data = snapshot_of cfg up2 c2, last_rework_count = Some 2\<rparr>"
      and a2: "alerts w2 = alerts w1"
      using collect_metrics_cycle_result(2,4)[OF p(2) e2, of c2 s2] n(2)
      by (simp_all add: w2_def c1 get_default_def)
    have e3: "\<not> t3 - last_update (metrics_cache w2) < 10"
      using later(2) by (simp add: c2)
    have c3: "metrics_cache w3 =
                \<lparr>last_update = t3, data = snapshot_of cfg up3 c3, last_rework_count = Some 1\<rparr>"
      and a3: "alerts w3 = alerts w2"
      using collect_metrics_cycle_result(2,4)[OF p(3) e3, of c3 s3] n(3)
      by (simp_all add: w3_def c2 get_default_def)
    have e4: "\<not> t4 - last_update (metrics_cache w3) < 10"
      using later(3) by (simp add: c3)
    have a4: "alerts w4 = alerts w3 @ [alert_items cfg up4]"
      using collect_metrics_cycle_result(4)[OF p(4) e4, of c4 s4] n(4)
      by (simp add: w4_def c3 get_default_def)
    show ?thesis
      using a1 a2 a3 a4 by (simp add: w1_def w2_def w3_def w4_def)
  qed
  from one[of up now w clock smtp_ok] four show ?thesis
    by blast
qed

theorem C3_alert_gating_witness:
  "length (alert_items ex_cfg ex_two) = 2 \<and> length (alert_items ex_cfg ex_one) = 1 \<and>
   length (alert_items ex_cfg ex_three) = 3 \<and>
   alerts (snd (collect_metrics ex_cfg ex_two ex_clock False 100 initial_world)) =
     [alert_items ex_cfg ex_two] \<and>
   last_rework_count
     (metrics_cache (snd (collect_metrics ex_cfg ex_two ex_clock False 100 initial_world))) =
     Some 2 \<and>
   alerts (scrapes ex_cfg [(ex_two, ex_clock, False, 100), (ex_two, ex_clock, True, 110)]
             initial_world) = [alert_items ex_cfg ex_two] \<and>
   alerts (scrapes ex_cfg [(ex_two, ex_clock, False, 100), (ex_two, ex_clock, True, 110),
                           (ex_one, ex_clock, True, 120)] initial_world) =
     [alert_items ex_cfg ex_two] \<and>
   alerts (scrapes ex_cfg [(ex_two, ex_clock, False, 100), (ex_two, ex_clock, True, 110),
                           (ex_one, ex_clock, True, 120), (ex_three, ex_clock, True, 130)]
             initial_world) = [alert_items ex_cfg ex_two, alert_items ex_cfg ex_three]"
proof -
  have p: "data_parses ex_cfg ex_one" "data_parses ex_cfg ex_two" "data_parses ex_cfg ex_three"
    by (simp_all add: spec_defs gitlab_api_def ex_defs ex_more_defs)
  have n: "length (alert_items ex_cfg ex_two) = 2" "length (alert_items ex_cfg ex_one) = 1"
    "length (alert_items ex_cfg ex_three) = 3"
    by (simp_all add: spec_defs gitlab_api_def assigned_to_me_def email_user_def ex_defs
                      ex_more_defs)
  have start: "get_default 0 (last_rework_count (metrics_cache initial_world)) = 0"
    "\<not> (100::real) - last_update (metrics_cache initial_world) < 10"
    "alerts initial_world = []"
    by (simp_all add: initial_world_def get_default_def)
  have later: "(100::real) + 10 \<le> 110" "(110::real) + 10 \<le> 120" "(120::real) + 10 \<le> 130"
    by simp_all
  note inst = C3_alert_gating[where cfg = ex_cfg and up = ex_two and now = 100
                and w = initial_world and clock = ex_clock and smtp_ok = False
                and ?up1.0 = ex_two and ?up2.0 = ex_two and ?up3.0 = ex_one
                and ?up4.0 = ex_three and ?w0.0 = initial_world
                and ?t1.0 = 100 and ?t2.0 = 110 and ?t3.0 = 120 and ?t4.0 = 130
                and ?c1.0 = ex_clock and ?c2.0 = ex_clock and ?c3.0 = ex_clock
                and ?c4.0 = ex_clock and ?s1.0 = False and ?s2.0 = True and ?s3.0 = True
                and ?s4.0 = True]
  from inst p start(1,2) n
  have single: "alerts (snd (collect_metrics ex_cfg ex_two ex_clock False 100 initial_world)) =
                  alerts initial_world @ [alert_items ex_cfg ex_two]"
    and count: "last_rework_count
                  (metrics_cache (snd (collect_metrics ex_cfg ex_two ex_clock False 100
                                         initial_world))) = Some 2"
    by simp_all
  from inst p n start(1,2) later
  have chain:
    "alerts (scrapes ex_cfg [(ex_two, ex_clock, False, 100), (ex_two, ex_clock, True, 110)]
               initial_world) = alerts initial_world @ [alert_items ex_cfg ex_two]"
    "alerts (scrapes ex_cfg [(ex_two, ex_clock, False, 100), (ex_two, ex_clock, True, 110),
                             (ex_one, ex_clock, True, 120)] initial_world) =
       alerts initial_world @ [alert_items ex_cfg ex_two]"
    "alerts (scrapes ex_cfg [(ex_two, ex_clock, False, 100), (ex_two, ex_clock, True, 110),
                             (ex_one, ex_clock, True, 120), (ex_three, ex_clock, True, 130)]
               initial_world) =
       alerts initial_world @ [alert_items ex_cfg ex_two, alert_items ex_cfg ex_three]"
    by blast+
  show ?thesis
    using n single count chain by (simp add: start(3))
qed

text \<open>
  C4. If no event of the fetched log adds the rework done label, then whatever else the
  log holds, a result of \<open>calculate_time_in_state\<close> has \<open>time_in_rework\<close> and
  \<open>time_to_complete\<close> absent; and there is a result whenever the timestamps parse.
\<close>

theorem C4_no_rework_done:
  assumes "\<forall>e\<in>set (gitlab_api (label_events up project_id (iid mr))).
             \<not> is_add (LABEL_REWORK_DONE cfg) e"
  shows "(\<forall>t_rework t_review t_complete.
            fst (calculate_time_in_state cfg up now mr project_id w) =
              Inr (t_rework, t_review, t_complete)
            \<longrightarrow> t_rework = None \<and> t_complete = None) \<and>
         (timestamps_parse mr (gitlab_api (label_events up project_id (iid mr)))
            \<longrightarrow> (\<exists>t_review. fst (calculate_time_in_state cfg up now mr project_id w) =
                    Inr (None, t_review, None)))"
proof -
  define events where "events = gitlab_api (label_events up project_id (iid mr))"
  have none: "find (is_add (LABEL_REWORK_DONE cfg)) events = None"
    using assms by (simp add: events_def find_None_iff)
  have part1: "t_rework = None \<and> t_complete = None"
    if res: "fst (calculate_time_in_state cfg up now mr project_id w) =
               Inr (t_rework, t_review, t_complete)"
    for t_rework t_review t_complete
  proof (cases "events = []")
    case True
    with res show ?thesis
      by (simp add: calculate_time_in_state_def time_in_state_def get_mr_label_events_def events_def)
  next
    case False
    from res False obtain c s where c: "fromisoformat (mr_created_at mr) = Inr c"
      and s: "scan_events cfg events no_marks = Inr s"
      and d: "durations c now s = Inr (t_rework, t_review, t_complete)"
      by (auto simp: calculate_time_in_state_def time_in_state_def get_mr_label_events_def events_def
               split: sum.splits)
    have "rework_done_added s = None"
      using scan_events_done_None[OF s _ none] by (simp add: no_marks_def)
    from durations_no_done[OF this, of c now] d show ?thesis
      by auto
  qed
  have part2: "\<exists>t_review. fst (calculate_time_in_state cfg up now mr project_id w) =
                 Inr (None, t_review, None)"
    if parse: "timestamps_parse mr events"
  proof -
    from parse obtain c where c: "mr_created_at mr = Stamp c"
      by (cases "mr_created_at mr") (auto simp: timestamps_parse_def)
    from parse obtain s where s: "scan_events cfg events no_marks = Inr s"
      using scan_events_total[of events cfg] by (auto simp: timestamps_parse_def)
    have "rework_done_added s = None"
      using scan_events_done_None[OF s _ none] by (simp add: no_marks_def)
    from durations_no_done[OF this, of "Aware c" now] obtain b where
      d: "durations (Aware c) now s = Inr (None, b, None)"
      by blast
    have "fst (calculate_time_in_state cfg up now mr project_id w) =
            (if events = [] then Inr (None, None, None) else Inr (None, b, None))"
      using c s d
      by (simp add: calculate_time_in_state_def time_in_state_def get_mr_label_events_def events_def)
    then show ?thesis
      by (cases "events = []") auto
  qed
  from part1 part2 show ?thesis
    unfolding events_def by blast
qed

theorem C4_no_rework_done_witness:
  "fst (calculate_time_in_state ex_cfg (ex_up [ex_mr] (Some ex_log_open)) (hr 5) ex_mr 1
          initial_world) = Inr (None, Some 3, None)"
proof -
  have api: "gitlab_api (label_events (ex_up [ex_mr] (Some ex_log_open)) 1 (iid ex_mr)) = ex_log_open"
    by (simp add: gitlab_api_def ex_up_def)
  have h: "\<forall>e\<in>set (gitlab_api (label_events (ex_up [ex_mr] (Some ex_log_open)) 1 (iid ex_mr))).
             \<not> is_add (LABEL_REWORK_DONE ex_cfg) e"
    unfolding api by (simp add: ex_log_open_def is_add_def add_event_def ex_cfg_def)
  have p: "timestamps_parse ex_mr
             (gitlab_api (label_events (ex_up [ex_mr] (Some ex_log_open)) 1 (iid ex_mr)))"
    unfolding api by (simp add: timestamps_parse_def ex_mr_def ex_log_open_def add_event_def)
  from C4_no_rework_done[OF h, of "hr 5" initial_world] p
  obtain t_review where r:
    "fst (calculate_time_in_state ex_cfg (ex_up [ex_mr] (Some ex_log_open)) (hr 5) ex_mr 1
            initial_world) = Inr (None, t_review, None)"
    by blast
  have "fst (calculate_time_in_state ex_cfg (ex_up [ex_mr] (Some ex_log_open)) (hr 5) ex_mr 1
               initial_world) = Inr (None, Some 3, None)"
    by (simp add: calculate_time_in_state_def time_in_state_def get_mr_label_events_def gitlab_api_def ex_up_def
                  ex_mr_def ex_log_open_def add_event_def ex_cfg_def mark_event_def no_marks_def
                  durations_def hours_def hr_def)
  with r show ?thesis by simp
qed

text \<open>
  C5, as the code has it. An empty or unavailable event log gives three absent durations.
  The record of an item stores an absent duration and a duration of zero alike, as 0, and
  a value of 0 gets no sample line: the exposition shows no difference between the two.
\<close>

theorem C5_absent_and_zero_alike:
  "(gitlab_api (label_events up project_id (iid mr)) = [] \<longrightarrow>
      fst (calculate_time_in_state cfg up now mr project_id w) = Inr (None, None, None)) \<and>
   (absent_or_zero a \<and> absent_or_zero b \<and> absent_or_zero c \<longrightarrow>
      branch_data_of cfg project_name mr (a, b, c) =
        branch_data_of cfg project_name mr (None, None, None)) \<and>
   (time_in_rework bd = 0 \<longrightarrow> sample_lines ''gitlab_mr_time_in_rework_hours'' bd = []) \<and>
   (time_in_review bd = 0 \<longrightarrow> sample_lines ''gitlab_mr_time_in_review_hours'' bd = []) \<and>
   (time_to_complete bd = 0 \<longrightarrow> sample_lines ''gitlab_mr_time_to_complete_hours'' bd = [])"
proof -
  have empty: "fst (calculate_time_in_state cfg up now mr project_id w) = Inr (None, None, None)"
    if "gitlab_api (label_events up project_id (iid mr)) = []"
    using that by (simp add: calculate_time_in_state_def time_in_state_def get_mr_label_events_def)
  have same: "branch_data_of cfg project_name mr (a, b, c) =
                branch_data_of cfg project_name mr (None, None, None)"
    if "absent_or_zero a \<and> absent_or_zero b \<and> absent_or_zero c"
  proof -
    from that have "or0 a = or0 None" "or0 b = or0 None" "or0 c = or0 None"
      by (simp_all add: or0_absent_or_zero absent_or_zero_def)
    then show ?thesis
      by (simp add: branch_data_of_def)
  qed
  have lines: "sample_lines ''gitlab_mr_time_in_rework_hours'' bd = []"
    if "time_in_rework bd = 0"
    unfolding sample_lines_rework that by simp
  have lines': "sample_lines ''gitlab_mr_time_in_review_hours'' bd = []"
    if "time_in_review bd = 0"
    unfolding sample_lines_review that by simp
  have lines'': "sample_lines ''gitlab_mr_time_to_complete_hours'' bd = []"
    if "time_to_complete bd = 0"
    unfolding sample_lines_complete that by simp
  from empty same lines lines' lines'' show ?thesis
    by blast
qed

theorem C5_absent_and_zero_alike_witness:
  "fst (calculate_time_in_state ex_cfg (ex_up [ex_mr] None) (hr 9) ex_mr 1 initial_world) =
     Inr (None, None, None) \<and>
   branch_data_of ex_cfg ''team/exporter'' ex_mr (Some 0, None, Some 0) =
     branch_data_of ex_cfg ''team/exporter'' ex_mr (None, None, None) \<and>
   sample_lines ''gitlab_mr_time_in_rework_hours'' (ex_bd\<lparr>time_in_review := 0\<rparr>) = [] \<and>
   sample_lines ''gitlab_mr_time_in_review_hours'' (ex_bd\<lparr>time_in_review := 0\<rparr>) = [] \<and>
   sample_lines ''gitlab_mr_time_to_complete_hours'' (ex_bd\<lparr>time_in_review := 0\<rparr>) = []"
proof -
  have h1: "gitlab_api (label_events (ex_up [ex_mr] None) 1 (iid ex_mr)) = []"
    by (simp add: gitlab_api_def ex_up_def)
  have h2: "absent_or_zero (Some 0) \<and> absent_or_zero None \<and> absent_or_zero (Some 0)"
    by (simp add: absent_or_zero_def)
  have h3: "time_in_rework (ex_bd\<lparr>time_in_review := 0\<rparr>) = 0"
    "time_in_review (ex_bd\<lparr>time_in_review := 0\<rparr>) = 0"
    "time_to_complete (ex_bd\<lparr>time_in_review := 0\<rparr>) = 0"
    by (simp_all add: ex_bd_def)
  from C5_absent_and_zero_alike[of "ex_up [ex_mr] None" 1 ex_mr ex_cfg "hr 9" initial_world
         "Some 0" None "Some 0" "''team/exporter''" "ex_bd\<lparr>time_in_review := 0\<rparr>"]
       h1 h2 h3
  show ?thesis
    by blast
qed

text \<open>
  C5 as stated fails: for the same item, an unavailable event log gives three absent
  durations and a log with rework and rework done added at the creation time gives
  \<open>time_in_rework\<close> and \<open>time_to_complete\<close> of zero, and the two responses of
  \<open>/metrics\<close> are the same.
\<close>

theorem C5_counterexample:
  "fst (calculate_time_in_state ex_cfg (ex_up [ex_mr] None) (hr 9) ex_mr 1 initial_world) =
     Inr (None, None, None) \<and>
   fst (calculate_time_in_state ex_cfg (ex_up [ex_mr] (Some ex_log_zero)) (hr 9) ex_mr 1
          initial_world) = Inr (Some 0, None, Some 0) \<and>
   fst (fst (do_GET ex_cfg (ex_up [ex_mr] None) ex_clock True 100 ''/metrics'' initial_world)) =
     200 \<and>
   fst (do_GET ex_cfg (ex_up [ex_mr] None) ex_clock True 100 ''/metrics'' initial_world) =
     fst (do_GET ex_cfg (ex_up [ex_mr] (Some ex_log_zero)) ex_clock True 100 ''/metrics''
            initial_world)"
proof -
  have absent: "fst (calculate_time_in_state ex_cfg (ex_up [ex_mr] None) (hr 9) ex_mr 1
                       initial_world) = Inr (None, None, None)"
    by (simp add: ex_defs run_defs)
  have zero: "fst (calculate_time_in_state ex_cfg (ex_up [ex_mr] (Some ex_log_zero)) (hr 9)
                     ex_mr 1 initial_world) = Inr (Some 0, None, Some 0)"
    by (simp add: ex_defs run_defs ex_log_zero_def)
  define snap where
    "snap = \<lparr>project_metrics =
               [(''team/exporter'',
                 \<lparr>total_mrs = 1, rework_mrs = 1, rework_assigned_to_me = 1,
                  in_review_mrs = 0, rework_done_mrs = 0\<rparr>)],
             branch_metrics =
               [\<lparr>bd_project = ''team/exporter'', bd_branch = ''fix-cache'',
                 bd_target_branch = ''main'', bd_mr_title = ''Fix the cache'',
                 time_in_rework = 0, time_in_review = 0, time_to_complete = 0,
                 has_rework = True, has_in_review = False, has_rework_done = False\<rparr>]\<rparr>"
  have s1: "fst (collect_metrics ex_cfg (ex_up [ex_mr] None) ex_clock True 100 initial_world) =
              Inr snap"
    by (simp add: ex_defs run_defs Let_def snap_def)
  have s2: "fst (collect_metrics ex_cfg (ex_up [ex_mr] (Some ex_log_zero)) ex_clock True 100
                   initial_world) = Inr snap"
    by (simp add: ex_defs run_defs ex_log_zero_def Let_def snap_def)
  have r1: "fst (do_GET ex_cfg (ex_up [ex_mr] None) ex_clock True 100 ''/metrics''
                   initial_world) = (200, join_lines (metric_lines snap))"
    using s1 by (auto simp: do_GET_def split: prod.splits sum.splits)
  have r2: "fst (do_GET ex_cfg (ex_up [ex_mr] (Some ex_log_zero)) ex_clock True 100 ''/metrics''
                   initial_world) = (200, join_lines (metric_lines snap))"
    using s2 by (auto simp: do_GET_def split: prod.splits sum.splits)
  show ?thesis
    unfolding r1 r2 using absent zero by simp
qed

text \<open>
  C6. For every record of an item, the lines of the item hold a sample line of a timing
  metric exactly when the record's value for that metric is greater than zero, and then
  one line, with the value to two decimals. A record whose \<open>time_in_review\<close> is 0 has
  no \<open>gitlab_mr_time_in_review_hours\<close> line; one whose \<open>time_in_review\<close> is 0.01 has
  one, with the value 0.01. The exposition of a snapshot has no other sample line of a
  timing metric than those of its items.
\<close>

theorem C6_timing_lines:
  "sample_lines ''gitlab_mr_time_in_rework_hours'' bd =
     (if 0 < time_in_rework bd
      then [''gitlab_mr_time_in_rework_hours'' @ item_labels bd @ '' '' @
              format_2f (time_in_rework bd)]
      else []) \<and>
   sample_lines ''gitlab_mr_time_in_review_hours'' bd =
     (if 0 < time_in_review bd
      then [''gitlab_mr_time_in_review_hours'' @ item_labels bd @ '' '' @
              format_2f (time_in_review bd)]
      else []) \<and>
   sample_lines ''gitlab_mr_time_to_complete_hours'' bd =
     (if 0 < time_to_complete bd
      then [''gitlab_mr_time_to_complete_hours'' @ item_labels bd @ '' '' @
              format_2f (time_to_complete bd)]
      else []) \<and>
   (time_in_review bd = 0 \<longrightarrow> sample_lines ''gitlab_mr_time_in_review_hours'' bd = []) \<and>
   (time_in_review bd = 1 / 100 \<longrightarrow>
      sample_lines ''gitlab_mr_time_in_review_hours'' bd =
        [''gitlab_mr_time_in_review_hours'' @ item_labels bd @ '' 0.01'']) \<and>
   filter (starts_with ''gitlab_mr_time_in_rework_hours{'') (metric_lines snap) =
     concat (map (sample_lines ''gitlab_mr_time_in_rework_hours'') (branch_metrics snap)) \<and>
   filter (starts_with ''gitlab_mr_time_in_review_hours{'') (metric_lines snap) =
     concat (map (sample_lines ''gitlab_mr_time_in_review_hours'') (branch_metrics snap)) \<and>
   filter (starts_with ''gitlab_mr_time_to_complete_hours{'') (metric_lines snap) =
     concat (map (sample_lines ''gitlab_mr_time_to_complete_hours'') (branch_metrics snap))"
proof -
  have zero: "sample_lines ''gitlab_mr_time_in_review_hours'' bd = []"
    if "time_in_review bd = 0"
    unfolding sample_lines_review that by simp
  have hundredth: "sample_lines ''gitlab_mr_time_in_review_hours'' bd =
                     [''gitlab_mr_time_in_review_hours'' @ item_labels bd @ '' 0.01'']"
    if "time_in_review bd = 1 / 100"
    unfolding sample_lines_review that by (simp add: format_2f_hundredth)
  from zero hundredth show ?thesis
    using sample_lines_rework[of bd] sample_lines_review[of bd] sample_lines_complete[of bd]
      timing_lines_of_snapshot[of snap]
    by blast
qed

theorem C6_timing_lines_witness:
  "time_in_review ex_bd = 1 / 100 \<and>
   sample_lines ''gitlab_mr_time_in_review_hours'' ex_bd =
     [''gitlab_mr_time_in_review_hours{project='' @ quoted ''team/exporter'' @
      '',branch='' @ quoted ''fix-cache'' @ '',target='' @ quoted ''main'' @
      '',title='' @ quoted ''Fix the cache'' @ ''} 0.01''] \<and>
   sample_lines ''gitlab_mr_time_in_rework_hours'' ex_bd = []"
proof -
  have h: "time_in_review ex_bd = 1 / 100"
    by (simp add: ex_bd_def)
  have z: "\<not> 0 < time_in_rework ex_bd"
    by (simp add: ex_bd_def)
  have l: "item_labels ex_bd =
             ''{project='' @ quoted ''team/exporter'' @ '',branch='' @ quoted ''fix-cache'' @
             '',target='' @ quoted ''main'' @ '',title='' @ quoted ''Fix the cache'' @ ''}''"
    by (simp add: item_labels_def branch_labels_def ex_bd_def escape_quotes_def)
  from C6_timing_lines[of ex_bd] h
  have r: "sample_lines ''gitlab_mr_time_in_review_hours'' ex_bd =
             [''gitlab_mr_time_in_review_hours'' @ item_labels ex_bd @ '' 0.01'']"
    by blast
  have e: "sample_lines ''gitlab_mr_time_in_rework_hours'' ex_bd = []"
    using z by (simp add: sample_lines_rework)
  show ?thesis
    unfolding r e l using h by simp
qed

text \<open>
  C7, as the code has it. Let the three label names differ and the timestamps parse. If
  the first add of rework done is not earlier than the creation of the item nor than the
  first adds of rework and of in review, and the clock is not earlier than the first add
  of in review, then each of the three durations is absent or not negative. In every
  case a negative value in the record of an item gets no sample line.
\<close>

theorem C7_ordered_nonneg:
  assumes "labels_distinct cfg"
    and "gitlab_api (label_events up project_id (iid mr)) = events"
    and "mr_created_at mr = Stamp created"
    and "list_all (\<lambda>e. is_stamp (ev_created_at e)) events"
    and "not_after (Some created) (first_add_time (LABEL_REWORK_DONE cfg) events)"
    and "not_after (first_add_time (LABEL_REWORK cfg) events)
           (first_add_time (LABEL_REWORK_DONE cfg) events)"
    and "not_after (first_add_time (LABEL_IN_REVIEW cfg) events)
           (first_add_time (LABEL_REWORK_DONE cfg) events)"
    and "not_after (first_add_time (LABEL_IN_REVIEW cfg) events) (Some now)"
  shows "(\<exists>t_rework t_review t_complete.
            fst (calculate_time_in_state cfg up now mr project_id w) =
              Inr (t_rework, t_review, t_complete) \<and>
            absent_or_nonneg t_rework \<and> absent_or_nonneg t_review \<and>
            absent_or_nonneg t_complete) \<and>
         (time_in_rework bd < 0 \<longrightarrow> sample_lines ''gitlab_mr_time_in_rework_hours'' bd = []) \<and>
         (time_in_review bd < 0 \<longrightarrow> sample_lines ''gitlab_mr_time_in_review_hours'' bd = []) \<and>
         (time_to_complete bd < 0 \<longrightarrow>
            sample_lines ''gitlab_mr_time_to_complete_hours'' bd = [])"
proof -
  have reducer: "\<exists>t_rework t_review t_complete.
            fst (calculate_time_in_state cfg up now mr project_id w) =
              Inr (t_rework, t_review, t_complete) \<and>
            absent_or_nonneg t_rework \<and> absent_or_nonneg t_review \<and>
            absent_or_nonneg t_complete"
  proof (cases "events = []")
    case True
    then show ?thesis
      using assms(2)
      by (simp add: calculate_time_in_state_def time_in_state_def get_mr_label_events_def absent_or_nonneg_def)
  next
    case False
    show ?thesis
      unfolding calculate_time_in_state_parsed[OF assms(1) assms(2) False assms(3) assms(4)]
      using assms(5-8)
      by (auto simp: aware_durations_def hours_def not_after_def absent_or_nonneg_def
               split: option.splits)
  qed
  have "sample_lines ''gitlab_mr_time_in_rework_hours'' bd = []" if "time_in_rework bd < 0"
    using that by (simp add: sample_lines_rework)
  moreover have "sample_lines ''gitlab_mr_time_in_review_hours'' bd = []"
    if "time_in_review bd < 0"
    using that by (simp add: sample_lines_review)
  moreover have "sample_lines ''gitlab_mr_time_to_complete_hours'' bd = []"
    if "time_to_complete bd < 0"
    using that by (simp add: sample_lines_complete)
  ultimately show ?thesis
    using reducer by blast
qed

theorem C7_ordered_nonneg_witness:
  "fst (calculate_time_in_state ex_cfg (ex_up [ex_mr] (Some ex_log_rework)) (hr 9) ex_mr 1
          initial_world) = Inr (Some 3, None, Some 4) \<and>
   sample_lines ''gitlab_mr_time_in_rework_hours'' (ex_bd\<lparr>time_in_rework := - 1\<rparr>) = []"
proof -
  have h1: "labels_distinct ex_cfg"
    by (simp add: labels_distinct_def ex_cfg_def)
  have h2: "gitlab_api (label_events (ex_up [ex_mr] (Some ex_log_rework)) 1 (iid ex_mr)) =
              ex_log_rework"
    by (simp add: gitlab_api_def ex_up_def)
  have h3: "mr_created_at ex_mr = Stamp 0"
    by (simp add: ex_mr_def)
  have h4: "list_all (\<lambda>e. is_stamp (ev_created_at e)) ex_log_rework"
    by (simp add: ex_log_rework_def add_event_def remove_event_def)
  have f1: "first_add_time (LABEL_REWORK ex_cfg) ex_log_rework = Some (hr 1)"
    by (simp add: first_add_time_def is_add_def ex_cfg_def ex_log_rework_def add_event_def
                  remove_event_def)
  have f2: "first_add_time (LABEL_IN_REVIEW ex_cfg) ex_log_rework = None"
    by (simp add: first_add_time_def is_add_def ex_cfg_def ex_log_rework_def add_event_def
                  remove_event_def)
  have f3: "first_add_time (LABEL_REWORK_DONE ex_cfg) ex_log_rework = Some (hr 4)"
    by (simp add: first_add_time_def is_add_def ex_cfg_def ex_log_rework_def add_event_def
                  remove_event_def)
  have h5: "not_after (Some 0) (first_add_time (LABEL_REWORK_DONE ex_cfg) ex_log_rework)"
    unfolding f3 by (simp add: not_after_def hr_def)
  have h6: "not_after (first_add_time (LABEL_REWORK ex_cfg) ex_log_rework)
              (first_add_time (LABEL_REWORK_DONE ex_cfg) ex_log_rework)"
    unfolding f1 f3 by (simp add: not_after_def hr_def)
  have h7: "not_after (first_add_time (LABEL_IN_REVIEW ex_cfg) ex_log_rework)
              (first_add_time (LABEL_REWORK_DONE ex_cfg) ex_log_rework)"
    unfolding f2 f3 by (simp add: not_after_def)
  have h8: "not_after (first_add_time (LABEL_IN_REVIEW ex_cfg) ex_log_rework) (Some (hr 9))"
    unfolding f2 by (simp add: not_after_def)
  have neg: "time_in_rework (ex_bd\<lparr>time_in_rework := - 1\<rparr>) < 0"
    by simp
  have val: "fst (calculate_time_in_state ex_cfg (ex_up [ex_mr] (Some ex_log_rework)) (hr 9)
                    ex_mr 1 initial_world) = Inr (Some 3, None, Some 4)"
    by (simp add: ex_defs run_defs ex_log_rework_def)
  from C7_ordered_nonneg[OF h1 h2 h3 h4 h5 h6 h7 h8,
         of initial_world "ex_bd\<lparr>time_in_rework := - 1\<rparr>"] neg val
  show ?thesis
    by blast
qed

text \<open>
  C7 as stated fails: a log in chronological order that adds rework done one hour before
  rework gives a \<open>time_in_rework\<close> of minus one hour.
\<close>

theorem C7_counterexample:
  "fst (calculate_time_in_state ex_cfg (ex_up [ex_mr] (Some ex_log_done_first)) (hr 9) ex_mr 1
          initial_world) = Inr (Some (- 1), None, Some 1)"
  by (simp add: ex_defs run_defs ex_log_done_first_def)

text \<open>
  C8, as the code has it. A failed request (project search, item list or label events)
  counts as the empty list, for that request only. When every timestamp that is read is
  ISO 8601 text with a UTC offset and the resolved projects have different names, the
  cycle runs to its end whichever requests fail, and its snapshot is put together piece
  by piece: one entry of counters for each project, counted over the item list of that
  project, and one record for each item, from that item and its own label events. So a
  failed search leaves the projects of the other names as they are, a failed item list
  gives that project zero counters and no records, a failed fetch of label events gives
  that item absent durations. And whatever an upstream \<open>up'\<close> answers elsewhere, if
  it answers the searches and the item list of a project as \<open>up\<close> does, the counters
  of that project are those counted over its items, and every item of it whose label
  events are answered as in \<open>up\<close> has its record in the snapshot.
\<close>

theorem C8_fail_soft:
  "(data_parses cfg up \<and> distinct (map project_name_of (resolved cfg up)) \<and>
    \<not> now - last_update (metrics_cache w) < 10 \<longrightarrow>
      fst (collect_metrics cfg up clock smtp_ok now w) =
        Inr \<lparr>project_metrics =
               map (\<lambda>proj. (project_name_of proj, stats_of cfg (items up proj)))
                 (resolved cfg up),
             branch_metrics =
               concat (map (\<lambda>proj. map (item_record cfg up clock proj) (items up proj))
                         (resolved cfg up))\<rparr>) \<and>
   (search_projects up repo_name = None \<longrightarrow>
      resolved (cfg\<lparr>REPOSITORIES := before @ repo_name # after\<rparr>) up =
        resolved (cfg\<lparr>REPOSITORIES := before @ after\<rparr>) up) \<and>
   (merge_requests up (proj_id proj) = None \<longrightarrow>
      items up proj = [] \<and> stats_of cfg (items up proj) = zero_stats) \<and>
   (label_events up (proj_id proj) (iid mr) = None \<longrightarrow>
      item_parses up proj mr \<and>
      item_record cfg up clock proj mr =
        branch_data_of cfg (project_name_of proj) mr (None, None, None)) \<and>
   (search_projects up' = search_projects up \<longrightarrow> resolved cfg up' = resolved cfg up) \<and>
   (merge_requests up' (proj_id proj) = merge_requests up (proj_id proj) \<longrightarrow>
      items up' proj = items up proj) \<and>
   (label_events up' (proj_id proj) (iid mr) = label_events up (proj_id proj) (iid mr) \<longrightarrow>
      item_record cfg up' clock proj mr = item_record cfg up clock proj mr) \<and>
   (data_parses cfg up' \<and> distinct (map project_name_of (resolved cfg up')) \<and>
    \<not> now - last_update (metrics_cache w) < 10 \<and>
    search_projects up' = search_projects up \<and> proj \<in> set (resolved cfg up) \<and>
    merge_requests up' (proj_id proj) = merge_requests up (proj_id proj) \<longrightarrow>
      (\<exists>snap. fst (collect_metrics cfg up' clock smtp_ok now w) = Inr snap \<and>
         map_of (project_metrics snap) (project_name_of proj) =
           Some (stats_of cfg (items up proj)) \<and>
         (\<forall>item. item \<in> set (items up proj) \<and>
                 label_events up' (proj_id proj) (iid item) =
                   label_events up (proj_id proj) (iid item) \<longrightarrow>
                 item_record cfg up clock proj item \<in> set (branch_metrics snap))))"
proof -
  have cycle: "fst (collect_metrics cfg up clock smtp_ok now w) =
        Inr \<lparr>project_metrics =
               map (\<lambda>proj. (project_name_of proj, stats_of cfg (items up proj)))
                 (resolved cfg up),
             branch_metrics =
               concat (map (\<lambda>proj. map (item_record cfg up clock proj) (items up proj))
                         (resolved cfg up))\<rparr>"
    if "data_parses cfg up" and "distinct (map project_name_of (resolved cfg up))"
      and "\<not> now - last_update (metrics_cache w) < 10"
    for up
    using collect_metrics_cycle_result(1)[OF that(1,3), of clock smtp_ok]
    by (simp add: snapshot_of_def counters_of_distinct[OF that(2)])
  have split: "List.map_filter f (xs @ ys) = List.map_filter f xs @ List.map_filter f ys"
    for f :: "string \<Rightarrow> project option" and xs ys
    by (simp add: List.map_filter_def)
  have search: "resolved (cfg\<lparr>REPOSITORIES := before @ repo_name # after\<rparr>) up =
                  resolved (cfg\<lparr>REPOSITORIES := before @ after\<rparr>) up"
    if "search_projects up repo_name = None"
    using that by (simp add: resolved_def split gitlab_api_def)
  have list: "items up proj = [] \<and> stats_of cfg (items up proj) = zero_stats"
    if "merge_requests up (proj_id proj) = None"
    using that by (simp add: items_def gitlab_api_def stats_of_def zero_stats_def)
  have events: "item_parses up proj mr \<and>
      item_record cfg up clock proj mr =
        branch_data_of cfg (project_name_of proj) mr (None, None, None)"
    if "label_events up (proj_id proj) (iid mr) = None"
    using that
    by (simp add: item_parses_def item_events_def gitlab_api_def item_record_def
                  item_timing_def time_in_state_def)
  have same_projects: "resolved cfg up' = resolved cfg up"
    if "search_projects up' = search_projects up"
    using that by (simp add: resolved_def)
  have same_items: "items up' proj = items up proj"
    if "merge_requests up' (proj_id proj) = merge_requests up (proj_id proj)"
    using that by (simp add: items_def)
  have same_record: "item_record cfg up' clock proj mr = item_record cfg up clock proj mr"
    if "label_events up' (proj_id proj) (iid mr) = label_events up (proj_id proj) (iid mr)"
    for mr
    using that by (simp add: item_record_def item_timing_def item_events_def)
  have unrelated:
    "\<exists>snap. fst (collect_metrics cfg up' clock smtp_ok now w) = Inr snap \<and>
         map_of (project_metrics snap) (project_name_of proj) =
           Some (stats_of cfg (items up proj)) \<and>
         (\<forall>item. item \<in> set (items up proj) \<and>
                 label_events up' (proj_id proj) (iid item) =
                   label_events up (proj_id proj) (iid item) \<longrightarrow>
                 item_record cfg up clock proj item \<in> set (branch_metrics snap))"
    if p: "data_parses cfg up'" and d: "distinct (map project_name_of (resolved cfg up'))"
      and e: "\<not> now - last_update (metrics_cache w) < 10"
      and s: "search_projects up' = search_projects up"
      and m: "proj \<in> set (resolved cfg up)"
      and l: "merge_requests up' (proj_id proj) = merge_requests up (proj_id proj)"
  proof -
    let ?snap = "\<lparr>project_metrics =
                   map (\<lambda>proj. (project_name_of proj, stats_of cfg (items up' proj)))
                     (resolved cfg up'),
                 branch_metrics =
                   concat (map (\<lambda>proj. map (item_record cfg up' clock proj) (items up' proj))
                             (resolved cfg up'))\<rparr>"
    have m': "proj \<in> set (resolved cfg up')"
      using m same_projects[OF s] by simp
    have i: "items up' proj = items up proj"
      by (rule same_items[OF l])
    have "map_of (map (\<lambda>proj. (project_name_of proj, stats_of cfg (items up' proj)))
                    (resolved cfg up')) (project_name_of proj) =
            Some (stats_of cfg (items up' proj))"
      using d m' by (intro map_of_is_SomeI) (auto simp: comp_def)
    then have counters: "map_of (project_metrics ?snap) (project_name_of proj) =
                           Some (stats_of cfg (items up proj))"
      by (simp add: i)
    have records: "item_record cfg up clock proj item \<in> set (branch_metrics ?snap)"
      if "item \<in> set (items up proj)"
        and "label_events up' (proj_id proj) (iid item) =
               label_events up (proj_id proj) (iid item)"
      for item
    proof -
      from that(1) i have "item \<in> set (items up' proj)" by simp
      with m' have "item_record cfg up' clock proj item \<in> set (branch_metrics ?snap)"
        by auto
      with same_record[OF that(2)] show ?thesis by simp
    qed
    from cycle[OF p d e] counters records show ?thesis
      by blast
  qed
  from cycle[of up] search list events same_projects same_items same_record[of mr] unrelated
  show ?thesis
    by blast
qed

theorem C8_fail_soft_witness:
  "fst (collect_metrics ex_cfg ex_no_events ex_clock True 100 initial_world) =
     Inr \<lparr>project_metrics =
            [(''team/exporter'',
              \<lparr>total_mrs = 2, rework_mrs = 2, rework_assigned_to_me = 2, in_review_mrs = 0,
               rework_done_mrs = 0\<rparr>)],
          branch_metrics =
            [branch_data_of ex_cfg ''team/exporter'' ex_mr (None, None, None),
             branch_data_of ex_cfg ''team/exporter'' ex_mr2 (None, None, None)]\<rparr> \<and>
   fst (collect_metrics ex_cfg ex_no_items ex_clock True 100 initial_world) =
     Inr \<lparr>project_metrics = [(''team/exporter'', zero_stats)], branch_metrics = []\<rparr> \<and>
   fst (collect_metrics ex_cfg ex_no_projects ex_clock True 100 initial_world) =
     Inr \<lparr>project_metrics = [], branch_metrics = []\<rparr> \<and>
   fst (collect_metrics ex_cfg2 ex_docs_down ex_clock True 100 initial_world) =
     Inr \<lparr>project_metrics =
            [(''team/exporter'',
              \<lparr>total_mrs = 1, rework_mrs = 1, rework_assigned_to_me = 1, in_review_mrs = 0,
               rework_done_mrs = 0\<rparr>),
             (''team/docs'', zero_stats)],
          branch_metrics = [item_record ex_cfg2 ex_both ex_clock ex_project ex_mr]\<rparr> \<and>
   time_in_review (item_record ex_cfg2 ex_both ex_clock ex_project ex_mr) = 7 \<and>
   (\<exists>snap. fst (collect_metrics ex_cfg2 ex_docs_down ex_clock True 100 initial_world) =
             Inr snap \<and>
      map_of (project_metrics snap) ''team/exporter'' =
        Some \<lparr>total_mrs = 1, rework_mrs = 1, rework_assigned_to_me = 1, in_review_mrs = 0,
              rework_done_mrs = 0\<rparr> \<and>
      item_record ex_cfg2 ex_both ex_clock ex_project ex_mr \<in> set (branch_metrics snap))"
proof -
  have elapsed: "\<not> (100::real) - last_update (metrics_cache initial_world) < 10"
    by (simp add: initial_world_def)
  have p1: "data_parses ex_cfg ex_no_events"
    and p2: "data_parses ex_cfg ex_no_items"
    and p3: "data_parses ex_cfg ex_no_projects"
    and p4: "data_parses ex_cfg2 ex_docs_down"
    by (simp_all add: spec_defs gitlab_api_def ex_defs ex_more_defs)
  have r1: "resolved ex_cfg ex_no_events = [ex_project]"
    and r2: "resolved ex_cfg ex_no_items = [ex_project]"
    and r3: "resolved ex_cfg ex_no_projects = []"
    and r4: "resolved ex_cfg2 ex_docs_down = [ex_project, ex_project2]"
    and r5: "resolved ex_cfg2 ex_both = [ex_project, ex_project2]"
    by (simp_all add: spec_defs gitlab_api_def ex_defs ex_more_defs)
  have n: "project_name_of ex_project = ''team/exporter''"
    and n2: "project_name_of ex_project2 = ''team/docs''"
    by (simp_all add: project_name_of_def get_default_def ex_project_def ex_project2_def)
  have d1: "distinct (map project_name_of (resolved ex_cfg ex_no_events))"
    and d2: "distinct (map project_name_of (resolved ex_cfg ex_no_items))"
    and d3: "distinct (map project_name_of (resolved ex_cfg ex_no_projects))"
    and d4: "distinct (map project_name_of (resolved ex_cfg2 ex_docs_down))"
    by (simp_all add: r1 r2 r3 r4 n n2)
  have i1: "items ex_no_events ex_project = [ex_mr, ex_mr2]"
    and i2: "items ex_no_items ex_project = []"
    and i4: "items ex_docs_down ex_project = [ex_mr]"
    and i5: "items ex_docs_down ex_project2 = []"
    and i6: "items ex_both ex_project = [ex_mr]"
    by (simp_all add: spec_defs gitlab_api_def ex_defs ex_more_defs)
  have e1: "label_events ex_no_events (proj_id ex_project) (iid mr) = None" for mr
    by (simp add: ex_no_events_def ex_up_def)
  have s1: "stats_of ex_cfg [ex_mr, ex_mr2] =
              \<lparr>total_mrs = 2, rework_mrs = 2, rework_assigned_to_me = 2, in_review_mrs = 0,
               rework_done_mrs = 0\<rparr>"
    by (simp add: stats_of_def mine_def assigned_to_me_def email_user_def ex_defs ex_more_defs)
  have s2: "stats_of cfg [] = zero_stats" for cfg
    by (simp add: stats_of_def zero_stats_def)
  have s4: "stats_of ex_cfg2 [ex_mr] =
              \<lparr>total_mrs = 1, rework_mrs = 1, rework_assigned_to_me = 1, in_review_mrs = 0,
               rework_done_mrs = 0\<rparr>"
    by (simp add: stats_of_def mine_def assigned_to_me_def email_user_def ex_defs ex_more_defs)
  note a = C8_fail_soft[where cfg = ex_cfg and up = ex_no_events and now = 100
             and w = initial_world and clock = ex_clock and smtp_ok = True
             and proj = ex_project]
  note events = a[THEN conjunct2, THEN conjunct2, THEN conjunct2, THEN conjunct1, rule_format]
  have rec: "item_record ex_cfg ex_no_events ex_clock ex_project ex_mr =
               branch_data_of ex_cfg (project_name_of ex_project) ex_mr (None, None, None)"
    "item_record ex_cfg ex_no_events ex_clock ex_project ex_mr2 =
       branch_data_of ex_cfg (project_name_of ex_project) ex_mr2 (None, None, None)"
    using events[OF e1, of ex_mr] events[OF e1, of ex_mr2] by simp_all
  have first: "fst (collect_metrics ex_cfg ex_no_events ex_clock True 100 initial_world) =
     Inr \<lparr>project_metrics =
            [(''team/exporter'',
              \<lparr>total_mrs = 2, rework_mrs = 2, rework_assigned_to_me = 2, in_review_mrs = 0,
               rework_done_mrs = 0\<rparr>)],
          branch_metrics =
            [branch_data_of ex_cfg ''team/exporter'' ex_mr (None, None, None),
             branch_data_of ex_cfg ''team/exporter'' ex_mr2 (None, None, None)]\<rparr>"
    using a[THEN conjunct1, rule_format, OF conjI[OF p1 conjI[OF d1 elapsed]]]
    by (simp add: r1 i1 rec n s1)
  have second: "fst (collect_metrics ex_cfg ex_no_items ex_clock True 100 initial_world) =
     Inr \<lparr>project_metrics = [(''team/exporter'', zero_stats)], branch_metrics = []\<rparr>"
    using C8_fail_soft[where cfg = ex_cfg and up = ex_no_items and now = 100
            and w = initial_world and clock = ex_clock and smtp_ok = True,
            THEN conjunct1, rule_format, OF conjI[OF p2 conjI[OF d2 elapsed]]]
    by (simp add: r2 i2 n s2)
  have third: "fst (collect_metrics ex_cfg ex_no_projects ex_clock True 100 initial_world) =
     Inr \<lparr>project_metrics = [], branch_metrics = []\<rparr>"
    using C8_fail_soft[where cfg = ex_cfg and up = ex_no_projects and now = 100
            and w = initial_world and clock = ex_clock and smtp_ok = True,
            THEN conjunct1, rule_format, OF conjI[OF p3 conjI[OF d3 elapsed]]]
    by (simp add: r3)
  note b = C8_fail_soft[where cfg = ex_cfg2 and up = ex_docs_down and up' = ex_both
             and now = 100 and w = initial_world and clock = ex_clock and smtp_ok = True
             and proj = ex_project and mr = ex_mr]
  have same: "label_events ex_both (proj_id ex_project) (iid ex_mr) =
                label_events ex_docs_down (proj_id ex_project) (iid ex_mr)"
    by (simp add: ex_docs_down_def ex_both_def)
  have rec4: "item_record ex_cfg2 ex_docs_down ex_clock ex_project ex_mr =
                item_record ex_cfg2 ex_both ex_clock ex_project ex_mr"
    using b[THEN conjunct2, THEN conjunct2, THEN conjunct2, THEN conjunct2, THEN conjunct2,
            THEN conjunct2, THEN conjunct1, rule_format, OF same]
    by simp
  have fourth: "fst (collect_metrics ex_cfg2 ex_docs_down ex_clock True 100 initial_world) =
     Inr \<lparr>project_metrics =
            [(''team/exporter'',
              \<lparr>total_mrs = 1, rework_mrs = 1, rework_assigned_to_me = 1, in_review_mrs = 0,
               rework_done_mrs = 0\<rparr>),
             (''team/docs'', zero_stats)],
          branch_metrics = [item_record ex_cfg2 ex_both ex_clock ex_project ex_mr]\<rparr>"
    using b[THEN conjunct1, rule_format, OF conjI[OF p4 conjI[OF d4 elapsed]]]
    by (simp add: r4 i4 i5 n n2 s2 s4 rec4)
  have seven: "time_in_review (item_record ex_cfg2 ex_both ex_clock ex_project ex_mr) = 7"
    by (simp add: item_record_def item_timing_def item_events_def branch_data_of_def
                  time_in_state_def ex_defs ex_more_defs run_defs)
  have h: "data_parses ex_cfg2 ex_docs_down \<and>
           distinct (map project_name_of (resolved ex_cfg2 ex_docs_down)) \<and>
           \<not> (100::real) - last_update (metrics_cache initial_world) < 10 \<and>
           search_projects ex_docs_down = search_projects ex_both \<and>
           ex_project \<in> set (resolved ex_cfg2 ex_both) \<and>
           merge_requests ex_docs_down (proj_id ex_project) =
             merge_requests ex_both (proj_id ex_project)"
  proof -
    have "search_projects ex_docs_down = search_projects ex_both"
      by (simp add: ex_docs_down_def)
    moreover have "ex_project \<in> set (resolved ex_cfg2 ex_both)"
      by (simp add: r5)
    moreover have "merge_requests ex_docs_down (proj_id ex_project) =
                     merge_requests ex_both (proj_id ex_project)"
      by (simp add: ex_docs_down_def ex_both_def ex_project_def)
    ultimately show ?thesis
      using p4 d4 elapsed by blast
  qed
  note c = C8_fail_soft[where cfg = ex_cfg2 and up = ex_both and up' = ex_docs_down
             and now = 100 and w = initial_world and clock = ex_clock and smtp_ok = True
             and proj = ex_project,
             THEN conjunct2, THEN conjunct2, THEN conjunct2, THEN conjunct2, THEN conjunct2,
             THEN conjunct2, THEN conjunct2, rule_format, OF h]
  then obtain snap where
    snap: "fst (collect_metrics ex_cfg2 ex_docs_down ex_clock True 100 initial_world) = Inr snap"
    and own: "map_of (project_metrics snap) (project_name_of ex_project) =
                Some (stats_of ex_cfg2 (items ex_both ex_project))"
    and kept: "\<forall>item. item \<in> set (items ex_both ex_project) \<and>
                 label_events ex_docs_down (proj_id ex_project) (iid item) =
                   label_events ex_both (proj_id ex_project) (iid item) \<longrightarrow>
                 item_record ex_cfg2 ex_both ex_clock ex_project item \<in> set (branch_metrics snap)"
    by blast
  have "label_events ex_docs_down (proj_id ex_project) (iid ex_mr) =
          label_events ex_both (proj_id ex_project) (iid ex_mr)"
    by (simp add: ex_docs_down_def)
  then have "ex_mr \<in> set (items ex_both ex_project) \<and>
        label_events ex_docs_down (proj_id ex_project) (iid ex_mr) =
          label_events ex_both (proj_id ex_project) (iid ex_mr)"
    by (simp add: i6)
  with kept have "item_record ex_cfg2 ex_both ex_clock ex_project ex_mr \<in> set (branch_metrics snap)"
    by blast
  with snap own have fifth:
    "\<exists>snap. fst (collect_metrics ex_cfg2 ex_docs_down ex_clock True 100 initial_world) =
             Inr snap \<and>
      map_of (project_metrics snap) ''team/exporter'' =
        Some \<lparr>total_mrs = 1, rework_mrs = 1, rework_assigned_to_me = 1, in_review_mrs = 0,
              rework_done_mrs = 0\<rparr> \<and>
      item_record ex_cfg2 ex_both ex_clock ex_project ex_mr \<in> set (branch_metrics snap)"
    unfolding n i6 s4 by blast
  from first second third fourth seven fifth show ?thesis
    by blast
qed

text \<open>
  C8 as stated fails: when the second of two items of a project has a creation time that
  is not ISO 8601 text, the cycle raises \<open>ValueError\<close> and \<open>/metrics\<close> answers 500
  with an empty body, although the first item alone gives a snapshot with its metrics.
\<close>

theorem C8_counterexample:
  "fst (collect_metrics ex_cfg ex_with_bad ex_clock True 100 initial_world) = Inl ValueError \<and>
   fst (do_GET ex_cfg ex_with_bad ex_clock True 100 ''/metrics'' initial_world) = (500, []) \<and>
   fst (collect_metrics ex_cfg ex_one ex_clock True 100 initial_world) =
     Inr \<lparr>project_metrics =
            [(''team/exporter'',
              \<lparr>total_mrs = 1, rework_mrs = 1, rework_assigned_to_me = 1, in_review_mrs = 0,
               rework_done_mrs = 0\<rparr>)],
          branch_metrics =
            [\<lparr>bd_project = ''team/exporter'', bd_branch = ''fix-cache'',
              bd_target_branch = ''main'', bd_mr_title = ''Fix the cache'',
              time_in_rework = 0, time_in_review = 7, time_to_complete = 0,
              has_rework = True, has_in_review = False, has_rework_done = False\<rparr>]\<rparr>"
proof -
  have bad: "fst (collect_metrics ex_cfg ex_with_bad ex_clock True 100 initial_world) =
               Inl ValueError"
    by (simp add: ex_defs ex_more_defs run_defs Let_def)
  then have response:
    "fst (do_GET ex_cfg ex_with_bad ex_clock True 100 ''/metrics'' initial_world) = (500, [])"
    by (cases "collect_metrics ex_cfg ex_with_bad ex_clock True 100 initial_world")
       (simp add: do_GET_def)
  have good: "fst (collect_metrics ex_cfg ex_one ex_clock True 100 initial_world) =
     Inr \<lparr>project_metrics =
            [(''team/exporter'',
              \<lparr>total_mrs = 1, rework_mrs = 1, rework_assigned_to_me = 1, in_review_mrs = 0,
               rework_done_mrs = 0\<rparr>)],
          branch_metrics =
            [\<lparr>bd_project = ''team/exporter'', bd_branch = ''fix-cache'',
              bd_target_branch = ''main'', bd_mr_title = ''Fix the cache'',
              time_in_rework = 0, time_in_review = 7, time_to_complete = 0,
              has_rework = True, has_in_review = False, has_rework_done = False\<rparr>]\<rparr>"
    by (simp add: ex_defs ex_more_defs run_defs Let_def)
  from bad response good show ?thesis
    by blast
qed

text \<open>
  C10. The body of the item loop adds one to the project's counter
  \<open>rework_assigned_to_me\<close> and appends the item to the alert list exactly when the rework
  label is among the item's labels and the text of \<open>YOUR_EMAIL\<close> before the first
  \<open>@\<close> is among the usernames of its assignees; otherwise it leaves both as they were. An
  assignee whose username is the full address does not count, and the display name of an
  assignee plays no part. The body returns whenever the timestamps of the item parse. After
  a whole cycle over projects with different names, the counter of a project is the
  number of its items that satisfy the condition.
\<close>

theorem C10_rework_assigned_to_me:
  "(fst (process_mr cfg up clock project_id project_name mr g w) = Inr g' \<longrightarrow>
      (if LABEL_REWORK cfg \<in> set (labels mr) \<and>
          Some (takeWhile (\<lambda>c. c \<noteq> CHR ''@'') (YOUR_EMAIL cfg)) \<in>
            set (map username (assignees mr))
       then rework_assigned_to_me (counters (l_metrics g') project_name) =
              rework_assigned_to_me (counters (l_metrics g) project_name) + 1 \<and>
            l_rework_mrs g' = l_rework_mrs g @ [alert_of project_name mr]
       else rework_assigned_to_me (counters (l_metrics g') project_name) =
              rework_assigned_to_me (counters (l_metrics g) project_name) \<and>
            l_rework_mrs g' = l_rework_mrs g)) \<and>
   (fst (process_mr cfg up clock project_id project_name mr g w) = Inr g' \<and>
    CHR ''@'' \<in> set (YOUR_EMAIL cfg) \<and>
    list_all (\<lambda>a. username a = Some (YOUR_EMAIL cfg)) (assignees mr) \<longrightarrow>
      rework_assigned_to_me (counters (l_metrics g') project_name) =
        rework_assigned_to_me (counters (l_metrics g) project_name) \<and>
      l_rework_mrs g' = l_rework_mrs g) \<and>
   (gitlab_api (label_events up project_id (iid mr)) = [] \<or>
    timestamps_parse mr (gitlab_api (label_events up project_id (iid mr))) \<longrightarrow>
      (\<exists>g'. fst (process_mr cfg up clock project_id project_name mr g w) = Inr g')) \<and>
   (data_parses cfg up \<and> \<not> now - last_update (metrics_cache w) < 10 \<and>
    distinct (map project_name_of (resolved cfg up)) \<and> proj \<in> set (resolved cfg up) \<longrightarrow>
      (\<exists>snap. fst (collect_metrics cfg up clock smtp_ok now w) = Inr snap \<and>
         rework_assigned_to_me (counters (project_metrics snap) (project_name_of proj)) =
           length (filter (\<lambda>mr. LABEL_REWORK cfg \<in> set (labels mr) \<and>
                              Some (takeWhile (\<lambda>c. c \<noteq> CHR ''@'') (YOUR_EMAIL cfg)) \<in>
                                set (map username (assignees mr)))
                     (items up proj))))"
proof -
  have mine_eq: "mine cfg mr \<longleftrightarrow>
      LABEL_REWORK cfg \<in> set (labels mr) \<and>
      Some (takeWhile (\<lambda>c. c \<noteq> CHR ''@'') (YOUR_EMAIL cfg)) \<in> set (map username (assignees mr))"
    for mr
    by (simp add: mine_def assigned_to_me_def email_user_def)
  have body: "rework_assigned_to_me (counters (l_metrics g') project_name) =
                rework_assigned_to_me (counters (l_metrics g) project_name) +
                (if mine cfg mr then 1 else 0) \<and>
              l_rework_mrs g' =
                l_rework_mrs g @ (if mine cfg mr then [alert_of project_name mr] else [])"
    if "fst (process_mr cfg up clock project_id project_name mr g w) = Inr g'"
  proof -
    from process_mr_returns[OF that] obtain t where
      g': "g' = record_mr cfg project_name mr t
                  (g\<lparr>l_metrics :=
                       bump project_name (\<lambda>s. s\<lparr>total_mrs := total_mrs s + 1\<rparr>)
                         (l_metrics g)\<rparr>)"
      by blast
    show ?thesis
      unfolding g' record_mr_assigned_counter record_mr_rework_mrs
      by (simp add: counters_bump)
  qed
  have address: "\<not> mine cfg mr"
    if "CHR ''@'' \<in> set (YOUR_EMAIL cfg)"
      and "list_all (\<lambda>a. username a = Some (YOUR_EMAIL cfg)) (assignees mr)"
  proof -
    have "CHR ''@'' \<notin> set (takeWhile (\<lambda>c. c \<noteq> CHR ''@'') (YOUR_EMAIL cfg))"
      by (auto dest: set_takeWhileD)
    with that(1) have "takeWhile (\<lambda>c. c \<noteq> CHR ''@'') (YOUR_EMAIL cfg) \<noteq> YOUR_EMAIL cfg"
      by metis
    with that(2) show ?thesis
      by (auto simp: mine_eq list_all_iff)
  qed
  have cycle: "\<exists>snap. fst (collect_metrics cfg up clock smtp_ok now w) = Inr snap \<and>
         rework_assigned_to_me (counters (project_metrics snap) (project_name_of proj)) =
           length (filter (\<lambda>mr. LABEL_REWORK cfg \<in> set (labels mr) \<and>
                              Some (takeWhile (\<lambda>c. c \<noteq> CHR ''@'') (YOUR_EMAIL cfg)) \<in>
                                set (map username (assignees mr)))
                     (items up proj))"
    if "data_parses cfg up" and "\<not> now - last_update (metrics_cache w) < 10"
      and "distinct (map project_name_of (resolved cfg up))" and "proj \<in> set (resolved cfg up)"
    using collect_metrics_cycle_result(1)[OF that(1,2), of clock smtp_ok]
      counters_of_project[OF that(3,4)]
    by (simp add: snapshot_of_def stats_of_def mine_eq[abs_def])
  from body address process_mr_total[of up project_id mr cfg clock project_name g w] cycle
  show ?thesis
    unfolding mine_eq[symmetric]
    by (simp add: mine_eq[abs_def, symmetric])
qed

theorem C10_rework_assigned_to_me_witness:
  "(case fst (process_mr ex_cfg ex_one ex_clock 1 ''team/exporter'' ex_mr no_gathered
                initial_world) of
      Inl e \<Rightarrow> False
    | Inr g' \<Rightarrow>
        rework_assigned_to_me (counters (l_metrics g') ''team/exporter'') = 1 \<and>
        l_rework_mrs g' = [alert_of ''team/exporter'' ex_mr]) \<and>
   (case fst (process_mr ex_cfg ex_one ex_clock 1 ''team/exporter'' ex_mr_address no_gathered
                initial_world) of
      Inl e \<Rightarrow> False
    | Inr g' \<Rightarrow>
        rework_assigned_to_me (counters (l_metrics g') ''team/exporter'') = 0 \<and>
        l_rework_mrs g' = []) \<and>
   (\<exists>snap. fst (collect_metrics ex_cfg ex_three ex_clock True 100 initial_world) = Inr snap \<and>
      rework_assigned_to_me (counters (project_metrics snap) ''team/exporter'') = 3)"
proof -
  have parse: "timestamps_parse mr (gitlab_api (label_events ex_one 1 (iid mr)))"
    if "mr_created_at mr = Stamp 0" for mr
    using that
    by (simp add: timestamps_parse_def gitlab_api_def ex_defs ex_more_defs)
  have start: "counters (l_metrics no_gathered) ''team/exporter'' = zero_stats"
    "l_rework_mrs no_gathered = []"
    by (simp_all add: counters_def no_gathered_def)
  have first: "case fst (process_mr ex_cfg ex_one ex_clock 1 ''team/exporter'' ex_mr no_gathered
                      initial_world) of
      Inl e \<Rightarrow> False
    | Inr g' \<Rightarrow>
        rework_assigned_to_me (counters (l_metrics g') ''team/exporter'') = 1 \<and>
        l_rework_mrs g' = [alert_of ''team/exporter'' ex_mr]"
  proof -
    have p: "timestamps_parse ex_mr (gitlab_api (label_events ex_one 1 (iid ex_mr)))"
      by (rule parse) (simp add: ex_mr_def)
    have c: "LABEL_REWORK ex_cfg \<in> set (labels ex_mr) \<and>
             Some (takeWhile (\<lambda>c. c \<noteq> CHR ''@'') (YOUR_EMAIL ex_cfg)) \<in>
               set (map username (assignees ex_mr))"
      by (simp add: ex_cfg_def ex_mr_def)
    note inst = C10_rework_assigned_to_me[where cfg = ex_cfg and up = ex_one
                  and clock = ex_clock and project_id = 1 and project_name = "''team/exporter''"
                  and mr = ex_mr and g = no_gathered and w = initial_world]
    from inst p obtain g' where
      g': "fst (process_mr ex_cfg ex_one ex_clock 1 ''team/exporter'' ex_mr no_gathered
                  initial_world) = Inr g'"
      by blast
    from inst[where g' = g'] g' c
    have "rework_assigned_to_me (counters (l_metrics g') ''team/exporter'') =
            rework_assigned_to_me (counters (l_metrics no_gathered) ''team/exporter'') + 1 \<and>
          l_rework_mrs g' = l_rework_mrs no_gathered @ [alert_of ''team/exporter'' ex_mr]"
      by presburger
    then show ?thesis
      by (simp add: g' start zero_stats_def)
  qed
  have second: "case fst (process_mr ex_cfg ex_one ex_clock 1 ''team/exporter'' ex_mr_address
                       no_gathered initial_world) of
      Inl e \<Rightarrow> False
    | Inr g' \<Rightarrow>
        rework_assigned_to_me (counters (l_metrics g') ''team/exporter'') = 0 \<and>
        l_rework_mrs g' = []"
  proof -
    have p: "timestamps_parse ex_mr_address
               (gitlab_api (label_events ex_one 1 (iid ex_mr_address)))"
      by (rule parse) (simp add: ex_mr_address_def ex_mr_def)
    have c: "CHR ''@'' \<in> set (YOUR_EMAIL ex_cfg) \<and>
             list_all (\<lambda>a. username a = Some (YOUR_EMAIL ex_cfg)) (assignees ex_mr_address)"
      by (simp add: ex_cfg_def ex_mr_address_def)
    note inst = C10_rework_assigned_to_me[where cfg = ex_cfg and up = ex_one
                  and clock = ex_clock and project_id = 1 and project_name = "''team/exporter''"
                  and mr = ex_mr_address and g = no_gathered and w = initial_world]
    from inst p obtain g' where
      g': "fst (process_mr ex_cfg ex_one ex_clock 1 ''team/exporter'' ex_mr_address no_gathered
                  initial_world) = Inr g'"
      by blast
    from inst[where g' = g'] g' c
    have "rework_assigned_to_me (counters (l_metrics g') ''team/exporter'') =
            rework_assigned_to_me (counters (l_metrics no_gathered) ''team/exporter'') \<and>
          l_rework_mrs g' = l_rework_mrs no_gathered"
      by blast
    then show ?thesis
      by (simp add: g' start zero_stats_def)
  qed
  have third: "\<exists>snap. fst (collect_metrics ex_cfg ex_three ex_clock True 100 initial_world) =
                        Inr snap \<and>
      rework_assigned_to_me (counters (project_metrics snap) ''team/exporter'') = 3"
  proof -
    have r: "resolved ex_cfg ex_three = [ex_project]"
      by (simp add: spec_defs gitlab_api_def ex_defs ex_more_defs)
    have h: "data_parses ex_cfg ex_three \<and>
             \<not> (100::real) - last_update (metrics_cache initial_world) < 10 \<and>
             distinct (map project_name_of (resolved ex_cfg ex_three)) \<and>
             ex_project \<in> set (resolved ex_cfg ex_three)"
      unfolding r
      by (simp add: data_parses_def r)
         (simp add: spec_defs gitlab_api_def ex_defs ex_more_defs)
    have n: "project_name_of ex_project = ''team/exporter''"
      by (simp add: project_name_of_def get_default_def ex_project_def)
    have k: "length (filter (\<lambda>mr. LABEL_REWORK ex_cfg \<in> set (labels mr) \<and>
                              Some (takeWhile (\<lambda>c. c \<noteq> CHR ''@'') (YOUR_EMAIL ex_cfg)) \<in>
                                set (map username (assignees mr)))
                     (items ex_three ex_project)) = 3"
      by (simp add: items_def gitlab_api_def ex_defs ex_more_defs)
    from C10_rework_assigned_to_me[where cfg = ex_cfg and up = ex_three and now = 100
           and w = initial_world and proj = ex_project and clock = ex_clock and smtp_ok = True]
         h
    show ?thesis
      unfolding n k by blast
  qed
  from first second third show ?thesis
    by blast
qed

end
